theory Spec2Isabelle
  imports Main "HOL-Library.Word" "HOL-Library.Signed_Division" "HOL-Library.AList"
begin

chapter \<open>The embedding\<close>

section \<open>Basic types of the quorumnet layer\<close>

text \<open>
  The model follows \<open>src/cryptonote_protocol/quorumnet.cpp\<close>: the submitter's table of
  pending blinks (\<open>send_blink\<close>, \<open>common_blink_response\<close> and the three response handlers),
  the votes on the wire (\<open>serialize_vote\<close>, \<open>deserialize_vote\<close>), the fields of a
  \<open>blink_sign\<close> message (\<open>handle_blink_signature\<close>), the blink quorums
  (\<open>get_blink_quorums\<close>) and the checks of \<open>handle_blink\<close> before them, the topology engine
  (\<open>peer_info::add_peer\<close>, \<open>peer_info::compute_peers\<close>) and \<open>process_blink_signatures\<close>.

  Machine integers are words of the width the source declares; keys, hashes and
  signatures are byte strings; points of \<open>std::chrono::high_resolution_clock\<close> are
  integers, counted in seconds.  A function that can throw returns a sum, with the
  exception on the left.  A local that the source reads without having written it is a
  parameter of the model.  Each handler is one thread of control: locks are not modelled.
  What the source takes from headers that are not among the sources is either a
  parameter or a definition marked as modelled from the specification.
\<close>

type_synonym u8 = "8 word"
type_synonym u16 = "16 word"
type_synonym u64 = "64 word"
type_synonym int32 = "32 word" \<comment> \<open>a C++ \<open>int\<close>, read through \<open>sint\<close>\<close>
type_synonym crypto_hash = string
type_synonym public_key = string
type_synonym x25519_public_key = string
type_synonym crypto_signature = string
type_synonym time_point = int

section \<open>Submitter side: the table of pending blink submissions\<close>

datatype blink_result = accepted | rejected | timeout

type_synonym blink_response = "blink_result \<times> string"

text \<open>
  \<open>struct blink_result_data\<close>.  The \<open>std::promise\<close> is its shared state: \<open>None\<close> while no
  value has been set, \<open>Some r\<close> once \<open>set_value r\<close> has succeeded.  A second \<open>set_value\<close>
  throws \<open>std::future_error\<close>, which every caller in this file catches and ignores.
\<close>

record blink_result_data =
  hash :: crypto_hash
  promise :: "blink_response option"
  expiry :: time_point
  remote_count :: int32
  nostart_count :: int32
  bad_count :: int32
  good_count :: int32

text \<open>
  \<open>pending_blink_results\<close> is an \<open>unordered_map\<close> from tag to \<open>blink_result_data\<close>: an
  association list with distinct keys, whose order is the (unspecified) iteration order.
\<close>

type_synonym pending_table = "(u64 \<times> blink_result_data) list"

text \<open>
  \<open>promise.set_value(r)\<close> inside \<open>try { ... } catch (const std::future_error &) {}\<close>: the
  new shared state and whether the value was set.
\<close>

definition try_set_value :: "blink_response option \<Rightarrow> blink_response \<Rightarrow> blink_response option \<times> bool" where
  "try_set_value p r = (case p of None \<Rightarrow> (Some r, True) | Some old \<Rightarrow> (Some old, False))"

text \<open>
  The loop of \<open>send_blink\<close> over \<open>pending_blink_results\<close> (under the unique lock).  It
  returns the entries that stay, the promises it resolved (tag and value) and the flag
  \<open>found\<close>.  The test is the source's: \<open>brd.expiry >= now\<close>.
\<close>

fun send_blink_sweep ::
  "time_point \<Rightarrow> crypto_hash \<Rightarrow> pending_table \<Rightarrow> bool
    \<Rightarrow> pending_table \<times> (u64 \<times> blink_response) list \<times> bool" where
  "send_blink_sweep now tx_hash [] found = ([], [], found)"
| "send_blink_sweep now tx_hash ((tag, brd) # rest) found =
     (if expiry brd \<ge> now then
        (case send_blink_sweep now tx_hash rest found of
           (kept, resolved, found') \<Rightarrow>
             (kept,
              (if snd (try_set_value (promise brd) (timeout, ''Blink quorum timeout''))
               then [(tag, (timeout, ''Blink quorum timeout''))] else []) @ resolved,
              found'))
      else
        (case send_blink_sweep now tx_hash rest (if \<not> found \<and> hash brd = tx_hash then True else found) of
           (kept, resolved, found') \<Rightarrow> ((tag, brd) # kept, resolved, found')))"

definition MAX_ACTIVE_PROMISES :: nat where
  "MAX_ACTIVE_PROMISES = 1000"

text \<open>
  The loop \<open>while (!brd)\<close> that draws a tag: the draws of \<open>tools::rng\<close> are given as a list;
  \<open>None\<close> means that every draw supplied was zero or in use, so the loop is still running.
\<close>

fun choose_tag :: "u64 list \<Rightarrow> pending_table \<Rightarrow> u64 option" where
  "choose_tag [] tbl = None"
| "choose_tag (r # rs) tbl =
     (if r = 0 \<or> r \<in> fst ` set tbl then choose_tag rs tbl else Some r)"

record send_blink_state =
  pending_blink_results :: pending_table
  future :: "blink_response option"
  timed_out :: "(u64 \<times> blink_response) list"
  blink_tag :: u64

text \<open>
  \<open>send_blink\<close> up to the end of its locked section.  \<open>parsed\<close> is the result of
  \<open>parse_and_validate_tx_from_blob\<close> (the hash, if the blob parses); \<open>now\<close> and \<open>now2\<close> are
  the two clock readings; a new entry is value-initialised by \<open>operator[]\<close>.  The result is
  \<open>None\<close> only when the tag loop has not finished on the draws given.  The sends that
  follow when \<open>blink_tag > 0\<close> are not part of this function.
\<close>

definition send_blink ::
  "crypto_hash option \<Rightarrow> time_point \<Rightarrow> time_point \<Rightarrow> u64 list \<Rightarrow> pending_table
    \<Rightarrow> send_blink_state option" where
  "send_blink parsed now now2 rng tbl =
     (case parsed of
        None \<Rightarrow> Some \<lparr>pending_blink_results = tbl,
                       future = Some (rejected, ''Could not parse transaction data''),
                       timed_out = [], blink_tag = 0\<rparr>
      | Some tx_hash \<Rightarrow>
          (case send_blink_sweep now tx_hash tbl False of
             (kept, resolved, found) \<Rightarrow>
               if found then
                 Some \<lparr>pending_blink_results = kept,
                       future = Some (rejected, ''Transaction was already submitted''),
                       timed_out = resolved, blink_tag = 0\<rparr>
               else if length kept \<ge> MAX_ACTIVE_PROMISES then
                 Some \<lparr>pending_blink_results = kept,
                       future = Some (rejected, ''Node is busy, try again later''),
                       timed_out = resolved, blink_tag = 0\<rparr>
               else
                 (case choose_tag rng kept of
                    None \<Rightarrow> None
                  | Some t \<Rightarrow>
                      Some \<lparr>pending_blink_results =
                              (t, \<lparr>hash = tx_hash, promise = None, expiry = now2 + 30,
                                   remote_count = 0, nostart_count = 0, bad_count = 0,
                                   good_count = 0\<rparr>) # kept,
                            future = None, timed_out = resolved, blink_tag = t\<rparr>)))"

section \<open>Exceptions and the wire values\<close>

text \<open>
  The exceptions the handlers can raise.  \<open>out_of_range\<close> is \<open>bt_dict::at\<close> on a missing key,
  \<open>bad_get\<close> is \<open>boost::get\<close> on a value that holds another alternative, \<open>bad_int\<close> is a
  failing \<open>get_int\<close>.
\<close>

datatype exn =
    invalid_argument string
  | runtime_error string
  | out_of_range
  | bad_get
  | bad_int

definition bindE :: "exn + 'a \<Rightarrow> ('a \<Rightarrow> exn + 'b) \<Rightarrow> exn + 'b" where
  "bindE r f = (case r of Inl e \<Rightarrow> Inl e | Inr x \<Rightarrow> f x)"

text \<open>
  \<open>bt_value\<close>: a byte string, an integer, a list or a dictionary.  A \<open>bt_dict\<close> is an
  ordered map from strings; it is kept as an association list, read with \<open>map_of\<close> and
  iterated in list order.
\<close>

datatype bt_value =
    BT_string string
  | BT_int int
  | BT_list "bt_value list"
  | BT_dict "(string \<times> bt_value) list"

type_synonym bt_dict = "(string \<times> bt_value) list"

definition dict_at :: "bt_dict \<Rightarrow> string \<Rightarrow> exn + bt_value" where
  "dict_at d k = (case map_of d k of None \<Rightarrow> Inl out_of_range | Some v \<Rightarrow> Inr v)"

fun get_dict :: "bt_value \<Rightarrow> exn + bt_dict" where
  "get_dict (BT_dict d) = Inr d"
| "get_dict _ = Inl bad_get"

fun get_string :: "bt_value \<Rightarrow> exn + string" where
  "get_string (BT_string s) = Inr s"
| "get_string _ = Inl bad_get"

fun get_list :: "bt_value \<Rightarrow> exn + bt_value list" where
  "get_list (BT_list l) = Inr l"
| "get_list _ = Inl bad_get"

text \<open>
  Modelled from the spec: \<open>get_int<I>\<close> of \<open>quorumnet/bt_serialize.h\<close>, which is not among
  the sources.  The source says of it (at \<open>get_or\<close>) that it succeeds when the value is an
  integer that fits \<open>I\<close>; here an unsigned \<open>I\<close> of the width of the result type.
\<close>

fun get_int :: "bt_value \<Rightarrow> exn + 'a::len word" where
  "get_int (BT_int i) =
     (if 0 \<le> i \<and> i < 2 ^ LENGTH('a) then Inr (word_of_int i) else Inl bad_int)"
| "get_int _ = Inl bad_int"

text \<open>\<open>SNNetwork::message\<close>: the data parts, the sender's x25519 key, and whether it is a service node.\<close>

record message =
  data :: "bt_value list"
  pubkey :: string
  sn :: bool

section \<open>Submitter side: responses of the entry nodes\<close>

text \<open>
  \<open>common_blink_response\<close>.  The counters are \<open>std::atomic<int>\<close>, \<open>remote_count\<close> is an
  \<open>int\<close>; \<open>++count\<close> wraps, the comparison is signed and \<open>/\<close> truncates.  The result is the
  new table and the promise resolved by this call, if any.  The callers pass exactly one
  of \<open>nostart\<close>, \<open>bad\<close>, \<open>good\<close> as \<open>true\<close> (the source asserts it).
\<close>

definition common_blink_response ::
  "u64 \<Rightarrow> blink_result \<Rightarrow> string \<Rightarrow> bool \<Rightarrow> bool \<Rightarrow> bool \<Rightarrow> pending_table
    \<Rightarrow> pending_table \<times> (u64 \<times> blink_response) list" where
  "common_blink_response tag res msg nostart bad good tbl =
     (case map_of tbl tag of
        None \<Rightarrow> (tbl, [])
      | Some pbr \<Rightarrow>
          (let count_same =
                 (if nostart then nostart_count pbr else if bad then bad_count pbr
                  else good_count pbr) + 1;
               pbr1 =
                 (if nostart then pbr\<lparr>nostart_count := count_same\<rparr>
                  else if bad then pbr\<lparr>bad_count := count_same\<rparr>
                  else pbr\<lparr>good_count := count_same\<rparr>);
               attempt = (if sint count_same > sint (remote_count pbr1) sdiv 2
                          then try_set_value (promise pbr1) (res, msg)
                          else (promise pbr1, False));
               pbr2 = pbr1\<lparr>promise := fst attempt\<rparr>;
               promise_set = snd attempt
           in if promise_set then (AList.delete tag tbl, [(tag, (res, msg))])
              else (AList.update tag pbr2 tbl, [])))"

definition handle_blink_not_started ::
  "message \<Rightarrow> pending_table \<Rightarrow> exn + (pending_table \<times> (u64 \<times> blink_response) list)" where
  "handle_blink_not_started m tbl =
     (if length (data m) \<noteq> 1 then Inr (tbl, [])
      else
        bindE (get_dict (data m ! 0)) (\<lambda>d.
        bindE (bindE (dict_at d ''!'') get_int) (\<lambda>tag.
        bindE (bindE (dict_at d ''e'') get_string) (\<lambda>error.
          Inr (common_blink_response tag rejected error True False False tbl)))))"

definition handle_blink_failure ::
  "message \<Rightarrow> pending_table \<Rightarrow> exn + (pending_table \<times> (u64 \<times> blink_response) list)" where
  "handle_blink_failure m tbl =
     (if length (data m) \<noteq> 1 then Inr (tbl, [])
      else
        bindE (get_dict (data m ! 0)) (\<lambda>d.
        bindE (bindE (dict_at d ''!'') get_int) (\<lambda>tag.
          Inr (common_blink_response tag rejected ''Transaction rejected by quorum''
                 False True False tbl))))"

definition handle_blink_success ::
  "message \<Rightarrow> pending_table \<Rightarrow> exn + (pending_table \<times> (u64 \<times> blink_response) list)" where
  "handle_blink_success m tbl =
     (if length (data m) \<noteq> 1 then Inr (tbl, [])
      else
        bindE (get_dict (data m ! 0)) (\<lambda>d.
        bindE (bindE (dict_at d ''!'') get_int) (\<lambda>tag.
          Inr (common_blink_response tag accepted '''' False False True tbl))))"

text \<open>
  The responses as the entry nodes build them: \<open>bt_dict{{"!", tag}, {"e", e}}\<close> for
  \<open>bl_nostart\<close> and \<open>bt_dict{{"!", tag}}\<close> for \<open>bl_bad\<close> and \<open>bl_good\<close>.
\<close>

definition bl_nostart :: "u64 \<Rightarrow> string \<Rightarrow> bt_value" where
  "bl_nostart tag e = BT_dict [(''!'', BT_int (uint tag)), (''e'', BT_string e)]"

definition bl_verdict :: "u64 \<Rightarrow> bt_value" where
  "bl_verdict tag = BT_dict [(''!'', BT_int (uint tag))]"

section \<open>Quorum votes on the wire\<close>

text \<open>
  Modelled from the spec: the enums \<open>quorum_type\<close>, \<open>quorum_group\<close> and \<open>new_state\<close> and the
  struct \<open>quorum_vote_t\<close> are declared in \<open>cryptonote_core/service_node_voting.h\<close> and
  \<open>service_node_rules.h\<close>, which are not among the sources.  The spec gives the vote's
  fields and the vote types; each enum is numbered from zero in the order written here, and
  its \<open>_count\<close> is the number of its values.
\<close>

datatype quorum_type = obligations | checkpointing | blink

datatype quorum_group = invalid | validator | worker

datatype new_state = deregister | decommission | recommission | ip_change_penalty

definition quorum_type_values :: "quorum_type list" where
  "quorum_type_values = [obligations, checkpointing, blink]"

definition quorum_group_values :: "quorum_group list" where
  "quorum_group_values = [invalid, validator, worker]"

definition new_state_values :: "new_state list" where
  "new_state_values = [deregister, decommission, recommission, ip_change_penalty]"

fun quorum_type_underlying :: "quorum_type \<Rightarrow> int" where
  "quorum_type_underlying obligations = 0"
| "quorum_type_underlying checkpointing = 1"
| "quorum_type_underlying blink = 2"

fun quorum_group_underlying :: "quorum_group \<Rightarrow> int" where
  "quorum_group_underlying invalid = 0"
| "quorum_group_underlying validator = 1"
| "quorum_group_underlying worker = 2"

fun new_state_underlying :: "new_state \<Rightarrow> int" where
  "new_state_underlying deregister = 0"
| "new_state_underlying decommission = 1"
| "new_state_underlying recommission = 2"
| "new_state_underlying ip_change_penalty = 3"

text \<open>
  The anonymous union of \<open>quorum_vote_t\<close>: either \<open>state_change\<close> (worker index and target
  state) or \<open>checkpoint\<close> (block hash).  The field \<open>type\<close> of the struct is \<open>vote_type\<close>
  here.
\<close>

datatype vote_payload =
    State_change u16 new_state
  | Checkpoint crypto_hash

record quorum_vote_t =
  version :: u8
  vote_type :: quorum_type
  block_height :: u64
  group :: quorum_group
  index_in_group :: u16
  signature :: crypto_signature
  payload :: vote_payload

text \<open>
  \<open>serialize_vote\<close>.  It reads \<open>vote.checkpoint\<close> of a checkpointing vote and
  \<open>vote.state_change\<close> of any other; the result is \<open>None\<close> where that is not the member the
  vote holds (the source would read the bytes of the other member).
\<close>

definition serialize_vote :: "quorum_vote_t \<Rightarrow> bt_dict option" where
  "serialize_vote vote =
     (let result =
            [(''v'', BT_int (uint (version vote))),
             (''t'', BT_int (quorum_type_underlying (vote_type vote))),
             (''h'', BT_int (uint (block_height vote))),
             (''g'', BT_int (quorum_group_underlying (group vote))),
             (''i'', BT_int (uint (index_in_group vote))),
             (''s'', BT_string (signature vote))]
      in if vote_type vote = checkpointing then
           (case payload vote of
              Checkpoint block_hash \<Rightarrow>
                Some (AList.update ''bh'' (BT_string block_hash) result)
            | State_change _ _ \<Rightarrow> None)
         else
           (case payload vote of
              State_change worker_index state \<Rightarrow>
                Some (AList.update ''sc'' (BT_int (new_state_underlying state))
                       (AList.update ''wi'' (BT_int (uint worker_index)) result))
            | Checkpoint _ \<Rightarrow> None))"

definition get_u8 :: "bt_value \<Rightarrow> exn + nat" where
  "get_u8 v = bindE (get_int v :: exn + u8) (\<lambda>w. Inr (unat w))"

definition get_u16 :: "bt_value \<Rightarrow> exn + nat" where
  "get_u16 v = bindE (get_int v :: exn + u16) (\<lambda>w. Inr (unat w))"

text \<open>
  \<open>get_enum<E>\<close>: the underlying integer is read with \<open>get_int\<close> at the enum's underlying
  type and must be below \<open>E::_count\<close>.
\<close>

definition get_enum :: "'e list \<Rightarrow> (bt_value \<Rightarrow> exn + nat) \<Rightarrow> bt_dict \<Rightarrow> string \<Rightarrow> exn + 'e" where
  "get_enum values get_underlying d key =
     bindE (bindE (dict_at d key) get_underlying) (\<lambda>result.
       if result < length values then Inr (values ! result)
       else Inl (invalid_argument (''invalid enum value for field '' @ key)))"

text \<open>
  \<open>deserialize_vote\<close>.  The local \<open>quorum_vote_t vote\<close> is filled field by field.  For a vote
  that is not a checkpointing vote the source calls \<open>get_enum<new_state>(d, "sc")\<close> and
  drops the result, so \<open>vote.state_change.state\<close> keeps whatever the local held before:
  that value is the parameter \<open>indeterminate\<close>.  The field is sixteen bits that nothing has
  written; the parameter ranges over the four values of the enum only, the memory can
  also hold a pattern that is none of them.
\<close>

definition deserialize_vote :: "new_state \<Rightarrow> bt_value \<Rightarrow> exn + quorum_vote_t" where
  "deserialize_vote indeterminate v =
     bindE (get_dict v) (\<lambda>d.
     bindE (bindE (dict_at d ''v'') get_int) (\<lambda>vote_version.
     bindE (get_enum quorum_type_values get_u8 d ''t'') (\<lambda>type.
     bindE (bindE (dict_at d ''h'') get_int) (\<lambda>height.
     bindE (get_enum quorum_group_values get_u8 d ''g'') (\<lambda>vote_group.
     if vote_group = invalid then Inl (invalid_argument ''invalid vote group'')
     else
     bindE (bindE (dict_at d ''i'') get_int) (\<lambda>index.
     bindE (bindE (dict_at d ''s'') get_string) (\<lambda>sig.
     if length sig \<noteq> 64 then Inl (invalid_argument ''invalid vote signature size'')
     else if type = checkpointing then
       bindE (bindE (dict_at d ''bh'') get_string) (\<lambda>bh.
         if length bh \<noteq> 32 then Inl (invalid_argument ''invalid vote checkpoint block hash'')
         else Inr \<lparr>version = vote_version, vote_type = type, block_height = height,
                   group = vote_group, index_in_group = index, signature = sig,
                   payload = Checkpoint bh\<rparr>)
     else
       bindE (bindE (dict_at d ''wi'') get_int) (\<lambda>wi.
       bindE (get_enum new_state_values get_u16 d ''sc'') (\<lambda>unused.
         Inr \<lparr>version = vote_version, vote_type = type, block_height = height,
              group = vote_group, index_in_group = index, signature = sig,
              payload = State_change wi indeterminate\<rparr>)))))))))"

text \<open>
  A legal vote: the group is not \<open>invalid\<close>, the signature has 64 bytes, and the union
  holds the member of the vote's type (with a block hash of 32 bytes).
\<close>

definition legal_vote :: "quorum_vote_t \<Rightarrow> bool" where
  "legal_vote vote =
     (group vote \<noteq> invalid \<and> length (signature vote) = 64 \<and>
      (case payload vote of
         Checkpoint bh \<Rightarrow> vote_type vote = checkpointing \<and> length bh = 32
       | State_change wi st \<Rightarrow> vote_type vote \<noteq> checkpointing))"

text \<open>A signature of 64 bytes, for the examples.\<close>

definition sample_signature :: crypto_signature where
  "sample_signature = replicate 64 (CHR ''s'')"

section \<open>Blink signatures on the wire\<close>

text \<open>\<open>std::to_string\<close> of an unsigned and of a signed integer.\<close>

function to_string_nat :: "nat \<Rightarrow> string" where
  "to_string_nat n =
     (if n < 10 then [''0123456789'' ! n]
      else to_string_nat (n div 10) @ [''0123456789'' ! (n mod 10)])"
  by pat_completeness auto
termination
  by (relation "measure id") auto

definition to_string :: "int \<Rightarrow> string" where
  "to_string i = (if i < 0 then CHR ''-'' # to_string_nat (nat (- i)) else to_string_nat (nat i))"

text \<open>
  Modelled from the spec: \<open>get_int<int>\<close> and \<open>get_int<bool>\<close> of \<open>quorumnet/bt_serialize.h\<close>
  (not among the sources), as \<open>get_int\<close> above: the integer must fit the type; for \<open>bool\<close>
  the spec gives the values 0 and 1.
\<close>

fun get_int_signed :: "bt_value \<Rightarrow> exn + int" where
  "get_int_signed (BT_int i) =
     (if - (2 ^ 31) \<le> i \<and> i < 2 ^ 31 then Inr i else Inl bad_int)"
| "get_int_signed _ = Inl bad_int"

fun get_int_bool :: "bt_value \<Rightarrow> exn + bool" where
  "get_int_bool (BT_int i) = (if i = 0 then Inr False else if i = 1 then Inr True else Inl bad_int)"
| "get_int_bool _ = Inl bad_int"

text \<open>
  \<open>pending_signature\<close>: approval, subquorum, subquorum position, signature.  A position is
  a C++ \<open>int\<close>; every position the handlers store is checked against a quorum size first,
  so it is kept as an integer.  A value-initialised tuple has a null signature: 64 zero bytes.
\<close>

type_synonym pending_signature = "bool \<times> u8 \<times> int \<times> crypto_signature"

definition null_signature :: crypto_signature where
  "null_signature = replicate 64 (char_of (0 :: nat))"

definition value_initialized :: pending_signature where
  "value_initialized = (False, 0, 0, null_signature)"

text \<open>
  Modelled from the spec: \<open>NUM_BLINK_QUORUMS\<close> is the number of values of
  \<open>blink_tx::subquorum\<close>, declared in \<open>cryptonote_core/tx_blink.h\<close> (not among the sources);
  the spec has two subquorums, with index in \<open>[0, 2)\<close>.  \<open>BLINK_SUBQUORUM_SIZE\<close> and
  \<open>BLINK_MIN_VOTES\<close>, of \<open>service_node_rules.h\<close>, are parameters of the functions that use
  them.
\<close>

definition NUM_BLINK_QUORUMS :: nat where
  "NUM_BLINK_QUORUMS = 2"

text \<open>
  The loop of \<open>copy_signature_values\<close>: one value of the list for each signature.  The
  caller has made the two lists equally long.
\<close>

fun copy_each ::
  "(pending_signature \<Rightarrow> bt_value \<Rightarrow> exn + pending_signature)
    \<Rightarrow> pending_signature list \<Rightarrow> bt_value list \<Rightarrow> exn + pending_signature list" where
  "copy_each copy_value (sg # sgs) (r # rs) =
     bindE (copy_value sg r) (\<lambda>sg'.
     bindE (copy_each copy_value sgs rs) (\<lambda>sgs'. Inr (sg' # sgs')))"
| "copy_each copy_value sgs [] = Inr sgs"
| "copy_each copy_value [] (r # rs) = Inr []"

definition copy_signature_values ::
  "(pending_signature \<Rightarrow> bt_value \<Rightarrow> exn + pending_signature)
    \<Rightarrow> pending_signature list \<Rightarrow> bt_value \<Rightarrow> exn + pending_signature list" where
  "copy_signature_values copy_value signatures val =
     bindE (get_list val) (\<lambda>results.
       if signatures = [] then
         copy_each copy_value (replicate (length results) value_initialized) results
       else if results = [] then
         Inl (invalid_argument ''Invalid blink signature data: no signatures sent'')
       else if length signatures \<noteq> length results then
         Inl (invalid_argument
               ''Invalid blink signature data: i, p, r, s lengths must be identical'')
       else copy_each copy_value signatures results)"

text \<open>The four \<open>copy_value\<close> lambdas, for the lists \<open>i\<close>, \<open>r\<close>, \<open>p\<close> and \<open>s\<close>.\<close>

definition copy_i :: "pending_signature \<Rightarrow> bt_value \<Rightarrow> exn + pending_signature" where
  "copy_i sg v =
     (case sg of (approval, qi, position, sig) \<Rightarrow>
        bindE (get_int v :: exn + u8) (\<lambda>dest.
          if unat dest \<ge> NUM_BLINK_QUORUMS then
            Inl (invalid_argument
                  (''Invalid blink signature data: invalid quorum index '' @ to_string (uint dest)))
          else Inr (approval, dest, position, sig)))"

definition copy_r :: "pending_signature \<Rightarrow> bt_value \<Rightarrow> exn + pending_signature" where
  "copy_r sg v =
     (case sg of (approval, qi, position, sig) \<Rightarrow>
        bindE (get_int_bool v) (\<lambda>dest. Inr (dest, qi, position, sig)))"

definition copy_p :: "nat \<Rightarrow> pending_signature \<Rightarrow> bt_value \<Rightarrow> exn + pending_signature" where
  "copy_p BLINK_SUBQUORUM_SIZE sg v =
     (case sg of (approval, qi, position, sig) \<Rightarrow>
        bindE (get_int_signed v) (\<lambda>dest.
          if dest < 0 \<or> dest \<ge> int BLINK_SUBQUORUM_SIZE then
            Inl (invalid_argument
                  (''Invalid blink signature data: invalid quorum position '' @ to_string dest))
          else Inr (approval, qi, dest, sig)))"

definition copy_s :: "pending_signature \<Rightarrow> bt_value \<Rightarrow> exn + pending_signature" where
  "copy_s sg v =
     (case sg of (approval, qi, position, sig) \<Rightarrow>
        bindE (get_string v) (\<lambda>sig_str.
          if length sig_str \<noteq> 64 then
            Inl (invalid_argument ''Invalid blink signature data: invalid signature'')
          else if sig_str = null_signature then
            Inl (invalid_argument ''Invalid blink signature data: invalid null signature'')
          else Inr (approval, qi, position, sig_str)))"

text \<open>
  The locals of \<open>handle_blink_signature\<close> that its loop over the dictionary fills
  (\<open>blink_height\<close>, \<open>checksum\<close>, \<open>tx_hash\<close> and \<open>signatures\<close> carry the prefix \<open>l_\<close>).  The
  source declares
  \<^verbatim>\<open>bool saw_checksum = false, saw_hash = false, saw_i, saw_r, saw_p, saw_s;\<close>
  so only the first two flags start as \<open>false\<close>; \<open>saw_i\<close>, \<open>saw_r\<close>, \<open>saw_p\<close>, \<open>saw_s\<close> and
  \<open>tx_hash\<close> start with whatever the stack holds, which is the argument \<open>stack\<close> of
  \<open>initial_locals\<close>.  Reading a flag that was never written is undefined behaviour: the
  argument gives the read a definite value, which a compiler need not do, so a flag that
  is \<open>false\<close> here says nothing about an optimised build.
\<close>

record blink_sign_locals =
  l_blink_height :: u64
  l_checksum :: u64
  l_tx_hash :: crypto_hash
  saw_checksum :: bool
  saw_hash :: bool
  saw_i :: bool
  saw_r :: bool
  saw_p :: bool
  saw_s :: bool
  l_signatures :: "pending_signature list"

record indeterminate_locals =
  stack_tx_hash :: crypto_hash
  stack_saw_i :: bool
  stack_saw_r :: bool
  stack_saw_p :: bool
  stack_saw_s :: bool

definition initial_locals :: "indeterminate_locals \<Rightarrow> blink_sign_locals" where
  "initial_locals stack =
     \<lparr>l_blink_height = 0, l_checksum = 0, l_tx_hash = stack_tx_hash stack,
      saw_checksum = False, saw_hash = False,
      saw_i = stack_saw_i stack, saw_r = stack_saw_r stack,
      saw_p = stack_saw_p stack, saw_s = stack_saw_s stack,
      l_signatures = []\<rparr>"

text \<open>One round of the loop \<open>for (const auto &input : data)\<close>: the \<open>switch\<close> on the key.\<close>

definition blink_sign_input ::
  "nat \<Rightarrow> string \<times> bt_value \<Rightarrow> blink_sign_locals \<Rightarrow> exn + blink_sign_locals" where
  "blink_sign_input BLINK_SUBQUORUM_SIZE input l =
     (case input of (key, val) \<Rightarrow>
        if length key \<noteq> 1 then
          Inl (invalid_argument (''Invalid blink signature data: invalid/unrecognized key '' @ key))
        else if key = ''h'' then
          bindE (get_int val) (\<lambda>h. Inr (l\<lparr>l_blink_height := h\<rparr>))
        else if key = ''#'' then
          bindE (get_string val) (\<lambda>hash_str.
            if length hash_str \<noteq> 32 then
              Inl (invalid_argument ''Invalid blink signature data: invalid tx hash'')
            else Inr (l\<lparr>l_tx_hash := hash_str, saw_hash := True\<rparr>))
        else if key = ''q'' then
          bindE (get_int val) (\<lambda>q. Inr (l\<lparr>l_checksum := q, saw_checksum := True\<rparr>))
        else if key = ''i'' then
          bindE (copy_signature_values copy_i (l_signatures l) val) (\<lambda>sgs.
            Inr (l\<lparr>l_signatures := sgs, saw_i := True\<rparr>))
        else if key = ''r'' then
          bindE (copy_signature_values copy_r (l_signatures l) val) (\<lambda>sgs.
            Inr (l\<lparr>l_signatures := sgs, saw_r := True\<rparr>))
        else if key = ''p'' then
          bindE (copy_signature_values (copy_p BLINK_SUBQUORUM_SIZE) (l_signatures l) val) (\<lambda>sgs.
            Inr (l\<lparr>l_signatures := sgs, saw_p := True\<rparr>))
        else if key = ''s'' then
          bindE (copy_signature_values copy_s (l_signatures l) val) (\<lambda>sgs.
            Inr (l\<lparr>l_signatures := sgs, saw_s := True\<rparr>))
        else
          Inl (invalid_argument (''Invalid blink signature data: invalid/unrecognized key '' @ key)))"

fun blink_sign_inputs ::
  "nat \<Rightarrow> bt_dict \<Rightarrow> blink_sign_locals \<Rightarrow> exn + blink_sign_locals" where
  "blink_sign_inputs BLINK_SUBQUORUM_SIZE [] l = Inr l"
| "blink_sign_inputs BLINK_SUBQUORUM_SIZE (input # rest) l =
     bindE (blink_sign_input BLINK_SUBQUORUM_SIZE input l)
       (blink_sign_inputs BLINK_SUBQUORUM_SIZE rest)"

text \<open>
  \<open>handle_blink_signature\<close> from its start to the test for missing fields: the locals
  with which the handler goes on to \<open>get_blink_quorums\<close> and the signatures, or the
  exception it throws.
\<close>

definition handle_blink_signature_fields ::
  "nat \<Rightarrow> indeterminate_locals \<Rightarrow> message \<Rightarrow> exn + blink_sign_locals" where
  "handle_blink_signature_fields BLINK_SUBQUORUM_SIZE stack m =
     (if length (data m) \<noteq> 1 then
        Inl (runtime_error (''Rejecting blink signature: expected one data entry not ''
                             @ to_string_nat (length (data m))))
      else
        bindE (get_dict (data m ! 0)) (\<lambda>d.
        bindE (blink_sign_inputs BLINK_SUBQUORUM_SIZE d (initial_locals stack)) (\<lambda>l.
          if \<not> (l_blink_height l \<noteq> 0 \<and> saw_hash l \<and> saw_checksum l \<and> saw_i l \<and> saw_r l
                 \<and> saw_p l \<and> saw_s l) then
            Inl (invalid_argument ''Invalid blink signature data: missing required fields'')
          else Inr l)))"

text \<open>A transaction hash of 32 bytes, for the examples.\<close>

definition sample_hash :: crypto_hash where
  "sample_hash = replicate 32 (CHR ''x'')"

section \<open>The blink transaction\<close>

text \<open>
  Modelled from the spec: \<open>cryptonote::blink_tx\<close> is declared in
  \<open>cryptonote_core/tx_blink.h\<close>, which is not among the sources.  The spec gives it a
  height, the transaction (here its hash), and for each of the two subquorums a row of
  slots, each \<open>none\<close>, \<open>approved\<close> or \<open>rejected\<close> with the signature stored.
  \<open>add_prechecked_signature\<close> stores into a slot that is \<open>none\<close> and returns \<open>true\<close>, and
  returns \<open>false\<close> otherwise (the spec has positions inside the row only; outside it
  nothing is stored).  \<open>approved\<close>: every subquorum has at least \<open>BLINK_MIN_VOTES\<close>
  approvals.  \<open>rejected\<close> (here \<open>rejected_tx\<close>): some subquorum has more than
  \<open>size - BLINK_MIN_VOTES\<close> rejections, \<open>size\<close> being the number of its slots.
\<close>

datatype signature_status = sig_none | sig_rejected | sig_approved

record blink_tx =
  height :: u64
  tx :: crypto_hash
  signature_slots :: "(signature_status \<times> crypto_signature) list list"

definition new_blink_tx :: "nat \<Rightarrow> u64 \<Rightarrow> blink_tx" where
  "new_blink_tx BLINK_SUBQUORUM_SIZE h =
     \<lparr>height = h, tx = [],
      signature_slots =
        replicate NUM_BLINK_QUORUMS (replicate BLINK_SUBQUORUM_SIZE (sig_none, null_signature))\<rparr>"

definition get_signature_status :: "blink_tx \<Rightarrow> nat \<Rightarrow> nat \<Rightarrow> signature_status" where
  "get_signature_status btx q position =
     (if q < length (signature_slots btx) \<and> position < length (signature_slots btx ! q)
      then fst (signature_slots btx ! q ! position) else sig_none)"

definition add_prechecked_signature ::
  "blink_tx \<Rightarrow> nat \<Rightarrow> nat \<Rightarrow> bool \<Rightarrow> crypto_signature \<Rightarrow> bool \<times> blink_tx" where
  "add_prechecked_signature btx q position approval sig =
     (if q < length (signature_slots btx) \<and> position < length (signature_slots btx ! q)
         \<and> fst (signature_slots btx ! q ! position) = sig_none
      then (True,
            btx\<lparr>signature_slots :=
                  (signature_slots btx)
                    [q := (signature_slots btx ! q)
                       [position := (if approval then sig_approved else sig_rejected, sig)]]\<rparr>)
      else (False, btx))"

definition count_status :: "signature_status \<Rightarrow> (signature_status \<times> crypto_signature) list \<Rightarrow> nat" where
  "count_status st row = length (filter (\<lambda>slot. fst slot = st) row)"

definition approved :: "nat \<Rightarrow> blink_tx \<Rightarrow> bool" where
  "approved BLINK_MIN_VOTES btx =
     list_all (\<lambda>row. count_status sig_approved row \<ge> BLINK_MIN_VOTES) (signature_slots btx)"

definition rejected_tx :: "nat \<Rightarrow> blink_tx \<Rightarrow> bool" where
  "rejected_tx BLINK_MIN_VOTES btx =
     list_ex (\<lambda>row. int (count_status sig_rejected row) > int (length row) - int BLINK_MIN_VOTES)
       (signature_slots btx)"

section \<open>The service node's view: rules, quorums, chain height, blink cache\<close>

text \<open>\<open>service_nodes::quorum\<close>: the ordered validators.\<close>

record quorum =
  validators :: "public_key list"

text \<open>
  What the handlers read from \<open>cryptonote::core\<close>, the service node list and the headers
  that are not among the sources: the two constants of \<open>service_node_rules.h\<close>,
  \<open>blink_tx::quorum_height\<close> (the height of the quorum of a subquorum, zero when the chain
  is too short), \<open>service_node_list::get_quorum\<close> (no quorum is a null pointer),
  \<open>quorum_checksum\<close> and the current chain height.
\<close>

record core =
  BLINK_SUBQUORUM_SIZE :: nat
  BLINK_MIN_VOTES :: nat
  quorum_height :: "u64 \<Rightarrow> nat \<Rightarrow> u64"
  get_quorum :: "quorum_type \<Rightarrow> u64 \<Rightarrow> quorum option"
  quorum_checksum :: "public_key list \<Rightarrow> nat \<Rightarrow> u64"
  get_current_blockchain_height :: u64

text \<open>\<open>SNNWrapper::blink_metadata\<close> and the map \<open>blinks\<close>: height, then hash.\<close>

record blink_metadata =
  btxptr :: "blink_tx option"
  pending_sigs :: "pending_signature list"
  reply_pubkey :: string
  reply_tag :: u64

type_synonym blinks = "u64 \<Rightarrow> (crypto_hash \<Rightarrow> blink_metadata option) option"

section \<open>Building the blink quorums\<close>

text \<open>
  What a call does: it returns, it throws, or it reads through a null pointer (undefined
  behaviour, kept as an outcome of its own).
\<close>

datatype 'a outcome = Returned 'a | Thrown exn | Null_dereference

definition bindO :: "'a outcome \<Rightarrow> ('a \<Rightarrow> 'b outcome) \<Rightarrow> 'b outcome" where
  "bindO r f = (case r of Returned x \<Rightarrow> f x | Thrown e \<Rightarrow> Thrown e | Null_dereference \<Rightarrow> Null_dereference)"

definition of_sum :: "exn + 'a \<Rightarrow> 'a outcome" where
  "of_sum r = (case r of Inl e \<Rightarrow> Thrown e | Inr x \<Rightarrow> Returned x)"

text \<open>
  The loop of \<open>get_blink_quorums\<close> over \<open>qi\<close>; the accumulator is \<open>result\<close> (the quorums so
  far) and \<open>local_checksum\<close>.  \<open>result[qi]->validators\<close> is read with no test of the pointer.
\<close>

fun get_blink_quorums_loop ::
  "core \<Rightarrow> u64 \<Rightarrow> nat list \<Rightarrow> quorum list \<times> u64 \<Rightarrow> (quorum list \<times> u64) outcome" where
  "get_blink_quorums_loop c blink_height [] acc = Returned acc"
| "get_blink_quorums_loop c blink_height (qi # qis) (result, local_checksum) =
     (if quorum_height c blink_height qi = 0 then
        Thrown (runtime_error ''too early in blockchain to create a quorum'')
      else
        (case get_quorum c blink (quorum_height c blink_height qi) of
           None \<Rightarrow> Null_dereference
         | Some q \<Rightarrow>
             if length (validators q) < BLINK_MIN_VOTES c
                \<or> length (validators q) > BLINK_SUBQUORUM_SIZE c then
               Thrown (runtime_error ''not enough blink nodes to form a quorum'')
             else
               get_blink_quorums_loop c blink_height qis
                 (result @ [q],
                  local_checksum + quorum_checksum c (validators q) (qi * BLINK_SUBQUORUM_SIZE c))))"

text \<open>
  \<open>get_blink_quorums\<close>: \<open>input_checksum\<close> is \<open>None\<close> for a null pointer; the checksum computed
  is returned with the quorums (the source stores it through \<open>output_checksum\<close> when that
  is given).
\<close>

definition get_blink_quorums :: "core \<Rightarrow> u64 \<Rightarrow> u64 option \<Rightarrow> (quorum list \<times> u64) outcome" where
  "get_blink_quorums c blink_height input_checksum =
     bindO (get_blink_quorums_loop c blink_height [0..<NUM_BLINK_QUORUMS] ([], 0))
       (\<lambda>(result, local_checksum).
          case input_checksum of
            None \<Rightarrow> Returned (result, local_checksum)
          | Some given \<Rightarrow>
              if given \<noteq> local_checksum then
                Thrown (runtime_error
                  (''wrong quorum checksum: expected '' @ to_string_nat (unat local_checksum)
                   @ '', received '' @ to_string_nat (unat given)))
              else Returned (result, local_checksum))"

section \<open>The handler of \<open>blink\<close>\<close>

text \<open>\<open>get_or<uint64_t>\<close>: the value when the key is present and \<open>get_int\<close> succeeds, else the fallback.\<close>

definition get_or :: "bt_dict \<Rightarrow> string \<Rightarrow> u64 \<Rightarrow> u64" where
  "get_or d key fallback =
     (case map_of d key of
        None \<Rightarrow> fallback
      | Some v \<Rightarrow> (case get_int v of Inr i \<Rightarrow> i | Inl e \<Rightarrow> fallback))"

text \<open>
  How far \<open>handle_blink\<close> gets: it returns after the replies listed (command and payload
  of each \<open>m.reply\<close>) with the cache as given, or it has its quorums and goes on to the
  membership check, the parsing of the transaction and the relay, which are not part of
  this model.
\<close>

datatype blink_handling =
    Handler_returned "(string \<times> bt_value) list" blinks
  | Quorums_built "quorum list" u64

text \<open>\<open>if (tag) m.reply("bl_nostart", bt_dict{{"!", tag}, {"e", e}}); return;\<close>\<close>

definition nostart_and_return :: "u64 \<Rightarrow> string \<Rightarrow> blinks \<Rightarrow> blink_handling" where
  "nostart_and_return tag e cache =
     Handler_returned (if tag \<noteq> 0 then [(''bl_nostart'', bl_nostart tag e)] else []) cache"

text \<open>
  The quorum step of \<open>handle_blink\<close>: \<open>get_blink_quorums\<close> inside
  \<open>try { ... } catch (const std::runtime_error &e)\<close>.
\<close>

definition handle_blink_quorums ::
  "core \<Rightarrow> blinks \<Rightarrow> u64 \<Rightarrow> u64 \<Rightarrow> u64 \<Rightarrow> blink_handling outcome" where
  "handle_blink_quorums c cache tag blink_height given_checksum =
     (case get_blink_quorums c blink_height (Some given_checksum) of
        Thrown (runtime_error what) \<Rightarrow>
          Returned (nostart_and_return tag (''Unable to retrieve blink quorum: '' @ what) cache)
      | Thrown e \<Rightarrow> Thrown e
      | Null_dereference \<Rightarrow> Null_dereference
      | Returned (blink_quorums, local_checksum) \<Rightarrow> Returned (Quorums_built blink_quorums local_checksum))"

text \<open>The look-up of an already known blink under the shared lock of \<open>snw.mutex\<close>.\<close>

definition already_seen :: "blinks \<Rightarrow> u64 \<Rightarrow> crypto_hash \<Rightarrow> blink_metadata option" where
  "already_seen cache blink_height h =
     (case cache blink_height of
        None \<Rightarrow> None
      | Some umap \<Rightarrow>
          (case umap h of
             None \<Rightarrow> None
           | Some md \<Rightarrow> if btxptr md \<noteq> None then Some md else None))"

definition set_reply :: "blinks \<Rightarrow> u64 \<Rightarrow> crypto_hash \<Rightarrow> blink_metadata \<Rightarrow> blinks" where
  "set_reply cache blink_height h md =
     cache(blink_height \<mapsto> (case cache blink_height of
                                 None \<Rightarrow> [h \<mapsto> md]
                               | Some umap \<Rightarrow> umap(h \<mapsto> md)))"

text \<open>\<open>handle_blink\<close>, from the message to the quorums.\<close>

definition handle_blink :: "core \<Rightarrow> blinks \<Rightarrow> message \<Rightarrow> blink_handling outcome" where
  "handle_blink c cache m =
     (if length (data m) \<noteq> 1 then Returned (Handler_returned [] cache)
      else
        bindO (of_sum (get_dict (data m ! 0))) (\<lambda>d.
        let tag = get_or d ''!'' 0 in
        bindO (of_sum (bindE (dict_at d ''h'') get_int)) (\<lambda>blink_height.
        let local_height = get_current_blockchain_height c in
        if blink_height < local_height - 2 then
          Returned (nostart_and_return tag ''Invalid blink authorization height'' cache)
        else if blink_height > local_height + 2 then
          Returned (nostart_and_return tag ''Invalid blink authorization height'' cache)
        else
          (case map_of d ''t'' of
             None \<Rightarrow>
               Returned (nostart_and_return tag ''No transaction included in blink request'' cache)
           | Some t \<Rightarrow>
               bindO (of_sum (get_string t)) (\<lambda>tx_data.
               bindO (of_sum (bindE (dict_at d ''#'') get_string)) (\<lambda>tx_hash_str.
               if length tx_hash_str = 32 then
                 (case already_seen cache blink_height tx_hash_str of
                    Some md \<Rightarrow>
                      Returned (Handler_returned []
                        (if tag \<noteq> 0 \<and> reply_tag md = 0
                         then set_reply cache blink_height tx_hash_str
                                (md\<lparr>reply_tag := tag, reply_pubkey := pubkey m\<rparr>)
                         else cache))
                  | None \<Rightarrow>
                      bindO (of_sum (bindE (dict_at d ''q'') get_int)) (\<lambda>given_checksum.
                        handle_blink_quorums c cache tag blink_height given_checksum))
               else
                 Returned (nostart_and_return tag ''Invalid transaction hash'' cache)))))))"

text \<open>
  A chain for the examples: subquorums of ten with seven votes needed, a quorum of the ten
  validators \<open>a\<close> to \<open>j\<close> at every height, a checksum that adds the offset to the number
  of validators, and quorum heights as given.
\<close>

definition ten_validators :: "public_key list" where
  "ten_validators = [''a'', ''b'', ''c'', ''d'', ''e'', ''f'', ''g'', ''h'', ''i'', ''j'']"

definition sample_core :: "(u64 \<Rightarrow> nat \<Rightarrow> u64) \<Rightarrow> (u64 \<Rightarrow> quorum option) \<Rightarrow> u64 \<Rightarrow> core" where
  "sample_core qh quorums chain_height =
     \<lparr>BLINK_SUBQUORUM_SIZE = 10, BLINK_MIN_VOTES = 7, quorum_height = qh,
      get_quorum = (\<lambda>type. quorums),
      quorum_checksum = (\<lambda>v offset. of_nat (length v + offset)),
      get_current_blockchain_height = chain_height\<rparr>"

section \<open>The quorum conditions in the words of the specification\<close>

text \<open>
  The validators of subquorum \<open>qi\<close> of a blink height, as the quorum source gives them: a
  subquorum that cannot be formed yet (its quorum height is zero, which is no height to
  ask the source for) or that the source does not have, has no validators.  That every
  subquorum has between \<open>BLINK_MIN_VOTES\<close> and \<open>BLINK_SUBQUORUM_SIZE\<close> validators; and the
  sum of the checksums of the subquorums, each offset by its index times
  \<open>BLINK_SUBQUORUM_SIZE\<close>.
\<close>

definition spec_subquorum :: "core \<Rightarrow> u64 \<Rightarrow> nat \<Rightarrow> public_key list" where
  "spec_subquorum c blink_height qi =
     (if quorum_height c blink_height qi = 0 then []
      else
        (case get_quorum c blink (quorum_height c blink_height qi) of
           None \<Rightarrow> []
         | Some q \<Rightarrow> validators q))"

definition spec_sizes_in_range :: "core \<Rightarrow> u64 \<Rightarrow> bool" where
  "spec_sizes_in_range c blink_height =
     list_all (\<lambda>qi. BLINK_MIN_VOTES c \<le> length (spec_subquorum c blink_height qi)
                    \<and> length (spec_subquorum c blink_height qi) \<le> BLINK_SUBQUORUM_SIZE c)
       [0..<NUM_BLINK_QUORUMS]"

definition spec_checksum :: "core \<Rightarrow> u64 \<Rightarrow> u64" where
  "spec_checksum c blink_height =
     sum_list (map (\<lambda>qi. quorum_checksum c (spec_subquorum c blink_height qi)
                            (qi * BLINK_SUBQUORUM_SIZE c))
                 [0..<NUM_BLINK_QUORUMS])"

text \<open>
  Quorum heights for the examples: none (zero) below height 35, else the blink height
  itself; and a quorum source with the ten validators at every height but zero.
\<close>

definition sample_quorum_height :: "u64 \<Rightarrow> nat \<Rightarrow> u64" where
  "sample_quorum_height h qi = (if h < 35 then 0 else h)"

definition sample_quorums :: "u64 \<Rightarrow> quorum option" where
  "sample_quorums h = (if h = 0 then None else Some \<lparr>validators = ten_validators\<rparr>)"

text \<open>
  A chain on which the subquorum \<open>qi\<close> of a blink height is drawn at that height plus
  \<open>qi\<close>, and a quorum source that has the ten validators at one height and nothing else.
\<close>

definition following_quorum_height :: "u64 \<Rightarrow> nat \<Rightarrow> u64" where
  "following_quorum_height h qi = h + of_nat qi"

definition only_quorum_at :: "u64 \<Rightarrow> u64 \<Rightarrow> quorum option" where
  "only_quorum_at known h = (if h = known then Some \<lparr>validators = ten_validators\<rparr> else None)"

section \<open>The topology engine: \<open>peer_info\<close>\<close>

text \<open>
  The fields of \<open>class peer_info\<close>.  \<open>remotes\<close> maps a primary key to the x25519 key and
  the connection string that the constructor looked up; \<open>peers\<close> maps an x25519 key to a
  connection string (a strong peer) or to the empty string (a weak, opportunistic peer).
\<close>

record peer_info =
  remotes :: "public_key \<Rightarrow> (x25519_public_key \<times> string) option"
  peers :: "x25519_public_key \<Rightarrow> string option"
  strong_peers :: int
  my_position :: "int list"
  my_position_count :: int

text \<open>\<open>std::find\<close> and \<open>std::distance\<close> in the constructor: the position of a key, or -1.\<close>

fun find_position :: "public_key \<Rightarrow> public_key list \<Rightarrow> int \<Rightarrow> int" where
  "find_position my_pubkey [] n = - 1"
| "find_position my_pubkey (v # vs) n =
     (if v = my_pubkey then n else find_position my_pubkey vs (n + 1))"

text \<open>
  The constructor of \<open>peer_info\<close>, up to its call of \<open>compute_peers\<close>.  First the positions
  of this node in the quorums given.
\<close>

definition find_my_positions :: "public_key \<Rightarrow> quorum list \<Rightarrow> int list" where
  "find_my_positions my_pubkey quorums =
     map (\<lambda>q. find_position my_pubkey (validators q) 0) quorums"

text \<open>
  Then \<open>need_remotes\<close>: for every quorum, the validators at this node's outgoing
  connections and, when \<open>opportunistic\<close>, at its incoming ones, unless excluded.  The
  targets of the bridges between quorums are not collected.  \<open>v[j]\<close> outside the vector
  is undefined behaviour, here \<open>None\<close>.
\<close>

fun need_from :: "public_key list \<Rightarrow> public_key list \<Rightarrow> int list \<Rightarrow> public_key list option" where
  "need_from exclude v [] = Some []"
| "need_from exclude v (j # js) =
     (if 0 \<le> j \<and> j < int (length v) then
        map_option (\<lambda>rest. if v ! nat j \<in> set exclude then rest else v ! nat j # rest)
          (need_from exclude v js)
      else None)"

fun need_remotes ::
  "(int \<Rightarrow> nat \<Rightarrow> int list) \<Rightarrow> (int \<Rightarrow> nat \<Rightarrow> int list) \<Rightarrow> public_key list \<Rightarrow> bool
    \<Rightarrow> int list \<Rightarrow> quorum list \<Rightarrow> public_key list option" where
  "need_remotes outgoing incoming exclude opportunistic (pos # positions) (q # quorums) =
     Option.bind (need_from exclude (validators q) (outgoing pos (length (validators q)))) (\<lambda>out.
     Option.bind (if opportunistic
                  then need_from exclude (validators q) (incoming pos (length (validators q)))
                  else Some []) (\<lambda>inc.
     map_option (\<lambda>rest. out @ inc @ rest)
       (need_remotes outgoing incoming exclude opportunistic positions quorums)))"
| "need_remotes outgoing incoming exclude opportunistic positions quorums = Some []"

text \<open>
  Then the look-up: \<open>directory\<close> gives, for the key of an active service node whose proof
  has an x25519 key, an address and a port, that x25519 key and the connection string
  \<open>tcp://ip:port\<close>; \<open>remotes\<close> gets the entries of the keys in \<open>need_remotes\<close>.  The node's
  own key is always excluded.  \<open>strong_peers\<close> has no value before \<open>compute_peers\<close> sets it to
  0, the value written here.
\<close>

definition peer_info_init ::
  "(int \<Rightarrow> nat \<Rightarrow> int list) \<Rightarrow> (int \<Rightarrow> nat \<Rightarrow> int list)
    \<Rightarrow> (public_key \<Rightarrow> (x25519_public_key \<times> string) option)
    \<Rightarrow> public_key \<Rightarrow> quorum list \<Rightarrow> bool \<Rightarrow> public_key list \<Rightarrow> peer_info option" where
  "peer_info_init outgoing incoming directory my_pubkey quorums opportunistic exclude =
     map_option
       (\<lambda>need. \<lparr>remotes = (\<lambda>pk. if pk \<in> set need then directory pk else None),
                 peers = (\<lambda>x. None), strong_peers = 0,
                 my_position = find_my_positions my_pubkey quorums,
                 my_position_count =
                   int (length (filter (\<lambda>p. p \<noteq> - 1) (find_my_positions my_pubkey quorums)))\<rparr>)
       (need_remotes outgoing incoming (my_pubkey # exclude) opportunistic
          (find_my_positions my_pubkey quorums) quorums)"

text \<open>\<open>add_peer\<close>: the flag it returns and the new state.\<close>

definition add_peer :: "public_key \<Rightarrow> bool \<Rightarrow> peer_info \<Rightarrow> bool \<times> peer_info" where
  "add_peer pk strong pi =
     (case remotes pi pk of
        None \<Rightarrow> (False, pi)
      | Some (x25519, addr) \<Rightarrow>
          (let remote_addr = (if strong then addr else '''') in
           case peers pi x25519 of
             None \<Rightarrow>
               (True, pi\<lparr>peers := (peers pi)(x25519 \<mapsto> remote_addr),
                         strong_peers := (if strong then strong_peers pi + 1 else strong_peers pi)\<rparr>)
           | Some existing \<Rightarrow>
               if strong \<and> existing = '''' then
                 (True, pi\<lparr>peers := (peers pi)(x25519 \<mapsto> addr),
                           strong_peers := strong_peers pi + 1\<rparr>)
               else (False, pi)))"

text \<open>
  \<open>add_peer(v[j], strong)\<close> for an index \<open>j\<close>: reading a vector outside its range is
  undefined behaviour, here \<open>None\<close>.
\<close>

definition add_peer_at :: "public_key list \<Rightarrow> int \<Rightarrow> bool \<Rightarrow> peer_info \<Rightarrow> peer_info option" where
  "add_peer_at v j strong pi =
     (if 0 \<le> j \<and> j < int (length v) then Some (snd (add_peer (v ! nat j) strong pi)) else None)"

fun add_peers_at :: "public_key list \<Rightarrow> int list \<Rightarrow> bool \<Rightarrow> peer_info \<Rightarrow> peer_info option" where
  "add_peers_at v [] strong pi = Some pi"
| "add_peers_at v (j # js) strong pi =
     Option.bind (add_peer_at v j strong pi) (add_peers_at v js strong)"

text \<open>
  The two bridges between neighbouring quorums, as the source has them.  Each is
  \<open>if (add_peer(...)) MTRACE(...)\<close>: the operand of the trace statement is evaluated when
  \<open>add_peer\<close> has returned \<open>true\<close> and trace logging is on for the category, the parameter
  \<open>trace\<close>.  \<open>add_peer_traced trace v j logged k\<close> is \<open>add_peer(v[j])\<close> followed by the trace
  statement that reads \<open>logged[k]\<close>; both reads are undefined behaviour outside the vector,
  here \<open>None\<close>.  (The trace statements of the connections inside a quorum read \<open>validators[j]\<close>,
  which \<open>add_peer_at\<close> has read already.)
\<close>

definition add_peer_traced ::
  "bool \<Rightarrow> public_key list \<Rightarrow> int \<Rightarrow> public_key list \<Rightarrow> int \<Rightarrow> peer_info \<Rightarrow> peer_info option" where
  "add_peer_traced trace v j logged k pi =
     (if 0 \<le> j \<and> j < int (length v) then
        (case add_peer (v ! nat j) True pi of
           (added, pi') \<Rightarrow>
             if added \<and> trace then
               (if 0 \<le> k \<and> k < int (length logged) then Some pi' else None)
             else Some pi')
      else None)"

text \<open>
  The bridge to the next quorum tests the position against half the smaller size and then
  calls \<open>add_peer(validators[my_position[i] - half])\<close>, with the list of the node's own
  quorum; its trace statement reads \<open>next_validators[my_position[i] - half]\<close>.
\<close>

definition bridge_to_next :: "bool \<Rightarrow> quorum list \<Rightarrow> nat \<Rightarrow> peer_info \<Rightarrow> peer_info option" where
  "bridge_to_next trace quorums i pi =
     (if Suc i < length quorums \<and> my_position pi ! Suc i < 0 then
        (let v = validators (quorums ! i);
             next_validators = validators (quorums ! Suc i);
             half = int (min (length v) (length next_validators)) div 2
         in if my_position pi ! i \<ge> half \<and> my_position pi ! i < half * 2
            then add_peer_traced trace v (my_position pi ! i - half)
                   next_validators (my_position pi ! i - half) pi
            else Some pi)
      else Some pi)"

text \<open>
  The bridge to the previous quorum calls \<open>add_peer(prev_validators[half + my_position[i]])\<close>,
  with the default \<open>strong = true\<close>; its trace statement reads
  \<open>prev_validators[my_position[i] - half]\<close>.
\<close>

definition bridge_to_previous :: "bool \<Rightarrow> quorum list \<Rightarrow> nat \<Rightarrow> peer_info \<Rightarrow> peer_info option" where
  "bridge_to_previous trace quorums i pi =
     (if i \<noteq> 0 \<and> my_position pi ! (i - 1) < 0 then
        (let v = validators (quorums ! i);
             prev_validators = validators (quorums ! (i - 1));
             half = int (min (length v) (length prev_validators)) div 2
         in if my_position pi ! i < half
            then add_peer_traced trace prev_validators (half + my_position pi ! i)
                   prev_validators (my_position pi ! i - half) pi
            else Some pi)
      else Some pi)"

text \<open>
  One round of the loop of \<open>compute_peers\<close>, for the quorum with index \<open>i\<close>: the outgoing
  connections (strong), the incoming ones (weak), then the two bridges.
  \<open>quorum_outgoing_conns\<close> and \<open>quorum_incoming_conns\<close> (of \<open>quorumnet/conn_matrix.h\<close>, not
  among the sources) are the parameters \<open>outgoing\<close> and \<open>incoming\<close>.
\<close>

definition compute_peers_round ::
  "bool \<Rightarrow> (int \<Rightarrow> nat \<Rightarrow> int list) \<Rightarrow> (int \<Rightarrow> nat \<Rightarrow> int list) \<Rightarrow> quorum list \<Rightarrow> nat
    \<Rightarrow> peer_info \<Rightarrow> peer_info option" where
  "compute_peers_round trace outgoing incoming quorums i pi =
     (if my_position pi ! i < 0 then Some pi
      else
        (let v = validators (quorums ! i); pos = my_position pi ! i in
         Option.bind (add_peers_at v (outgoing pos (length v)) True pi) (\<lambda>pi1.
         Option.bind (add_peers_at v (incoming pos (length v)) False pi1) (\<lambda>pi2.
         Option.bind (bridge_to_next trace quorums i pi2) (\<lambda>pi3.
           bridge_to_previous trace quorums i pi3)))))"

fun compute_peers_rounds ::
  "bool \<Rightarrow> (int \<Rightarrow> nat \<Rightarrow> int list) \<Rightarrow> (int \<Rightarrow> nat \<Rightarrow> int list) \<Rightarrow> quorum list \<Rightarrow> nat list
    \<Rightarrow> peer_info \<Rightarrow> peer_info option" where
  "compute_peers_rounds trace outgoing incoming quorums [] pi = Some pi"
| "compute_peers_rounds trace outgoing incoming quorums (i # is) pi =
     Option.bind (compute_peers_round trace outgoing incoming quorums i pi)
       (compute_peers_rounds trace outgoing incoming quorums is)"

text \<open>\<open>compute_peers\<close>; its parameter \<open>opportunistic\<close> is not read by the source.\<close>

definition compute_peers ::
  "bool \<Rightarrow> (int \<Rightarrow> nat \<Rightarrow> int list) \<Rightarrow> (int \<Rightarrow> nat \<Rightarrow> int list) \<Rightarrow> quorum list \<Rightarrow> bool
    \<Rightarrow> peer_info \<Rightarrow> peer_info option" where
  "compute_peers trace outgoing incoming quorums opportunistic pi =
     compute_peers_rounds trace outgoing incoming quorums [0..<length quorums]
       (pi\<lparr>strong_peers := 0\<rparr>)"

text \<open>The whole constructor.\<close>

definition new_peer_info ::
  "bool \<Rightarrow> (int \<Rightarrow> nat \<Rightarrow> int list) \<Rightarrow> (int \<Rightarrow> nat \<Rightarrow> int list)
    \<Rightarrow> (public_key \<Rightarrow> (x25519_public_key \<times> string) option)
    \<Rightarrow> public_key \<Rightarrow> quorum list \<Rightarrow> bool \<Rightarrow> public_key list \<Rightarrow> peer_info option" where
  "new_peer_info trace outgoing incoming directory my_pubkey quorums opportunistic exclude =
     Option.bind
       (peer_info_init outgoing incoming directory my_pubkey quorums opportunistic exclude)
       (compute_peers trace outgoing incoming quorums opportunistic)"

text \<open>
  For the examples: a directory in which every node has the x25519 key \<open>x\<close> followed by
  its name, and an address; and a connection matrix that is a ring, each position sending
  to the next one and hearing from the one before.
\<close>

definition sample_directory :: "public_key \<Rightarrow> (x25519_public_key \<times> string) option" where
  "sample_directory pk = Some (CHR ''x'' # pk, ''tcp://'' @ pk)"

definition ring_outgoing :: "int \<Rightarrow> nat \<Rightarrow> int list" where
  "ring_outgoing position n =
     (if 0 \<le> position \<and> position < int n then [(position + 1) mod int n] else [])"

definition ring_incoming :: "int \<Rightarrow> nat \<Rightarrow> int list" where
  "ring_incoming position n =
     (if 0 \<le> position \<and> position < int n then [(position - 1) mod int n] else [])"

section \<open>Processing blink signatures\<close>

text \<open>
  What a handler sends: a relay of a command to the blink peers of \<open>peer_info\<close> (with the
  peer the data came from, which is left out), or one message to one x25519 key.
\<close>

datatype sent =
    Relay_to_peers string bt_value string
  | Send string string bt_value

fun is_Send :: "sent \<Rightarrow> bool" where
  "is_Send (Send to cmd dict) = True"
| "is_Send (Relay_to_peers cmd dict received_from) = False"

text \<open>
  The first loop of \<open>process_blink_signatures\<close>, under the shared lock: signatures with a
  position outside the subquorum or for a slot that is taken are erased.
  \<open>blink_quorums[qi]\<close> is an \<open>std::array\<close> access with no test; an index outside the array
  is undefined behaviour, here \<open>None\<close>.
\<close>

fun discard_known ::
  "blink_tx \<Rightarrow> quorum list \<Rightarrow> pending_signature list \<Rightarrow> pending_signature list option" where
  "discard_known btx blink_quorums [] = Some []"
| "discard_known btx blink_quorums ((approval, qi, position, sig) # rest) =
     (if unat qi \<ge> length blink_quorums then None
      else if position < 0 \<or> position \<ge> int (length (validators (blink_quorums ! unat qi))) then
        discard_known btx blink_quorums rest
      else if get_signature_status btx (unat qi) (nat position) \<noteq> sig_none then
        discard_known btx blink_quorums rest
      else
        map_option (\<lambda>kept. (approval, qi, position, sig) # kept)
          (discard_known btx blink_quorums rest))"

text \<open>
  The second loop, with no lock held: signatures that \<open>crypto::check_signature\<close> refuses
  are erased.  \<open>btx.hash(approval)\<close> and \<open>check_signature\<close> are parameters.
\<close>

definition discard_invalid ::
  "(blink_tx \<Rightarrow> bool \<Rightarrow> crypto_hash) \<Rightarrow> (crypto_hash \<Rightarrow> public_key \<Rightarrow> crypto_signature \<Rightarrow> bool)
    \<Rightarrow> blink_tx \<Rightarrow> quorum list \<Rightarrow> pending_signature list \<Rightarrow> pending_signature list" where
  "discard_invalid hash_of check_signature btx blink_quorums sigs =
     filter (\<lambda>(approval, qi, position, sig).
               check_signature (hash_of btx approval)
                 (validators (blink_quorums ! unat qi) ! nat position) sig) sigs"

text \<open>
  The third loop, under the unique lock: each signature is stored with
  \<open>add_prechecked_signature\<close>, and erased from the list when its slot has been taken.
\<close>

fun store_signatures ::
  "blink_tx \<Rightarrow> pending_signature list \<Rightarrow> blink_tx \<times> pending_signature list" where
  "store_signatures btx [] = (btx, [])"
| "store_signatures btx ((approval, qi, position, sig) # rest) =
     (case add_prechecked_signature btx (unat qi) (nat position) approval sig of
        (stored, btx1) \<Rightarrow>
          (case store_signatures btx1 rest of
             (btx2, kept) \<Rightarrow>
               (btx2, if stored then (approval, qi, position, sig) # kept else kept)))"

text \<open>The dictionary of the \<open>blink_sign\<close> relay.\<close>

definition blink_sign_data :: "blink_tx \<Rightarrow> u64 \<Rightarrow> pending_signature list \<Rightarrow> bt_value" where
  "blink_sign_data btx quorum_cs sigs =
     BT_dict
       [(''#'', BT_string (tx btx)),
        (''h'', BT_int (uint (height btx))),
        (''i'', BT_list (map (\<lambda>(approval, qi, position, sig). BT_int (uint qi)) sigs)),
        (''p'', BT_list (map (\<lambda>(approval, qi, position, sig). BT_int position) sigs)),
        (''q'', BT_int (uint quorum_cs)),
        (''r'', BT_list (map (\<lambda>(approval, qi, position, sig). BT_int (if approval then 1 else 0)) sigs)),
        (''s'', BT_list (map (\<lambda>(approval, qi, position, sig). BT_string sig) sigs))]"

text \<open>
  \<open>process_blink_signatures\<close> holds the shared lock of the blink transaction for its first
  block, no lock while it checks the signatures, and the unique lock for the block that
  stores them; between these, other handlers of the same transaction can run.  A call in
  progress is therefore one of: called, with its signatures and the peer they came from;
  past the first block, with the signatures left and the values of \<open>already_approved\<close> and
  \<open>already_rejected\<close> read there; past the signature checks; or finished, with what it
  sent.
\<close>

datatype handler =
    Called "pending_signature list" string
  | Checked "pending_signature list" bool bool string
  | Verified "pending_signature list" bool bool string
  | Finished "sent list"

text \<open>
  One step of a call on the blink transaction as it is at that moment: the block under
  the shared lock, the signature checks, or the block under the unique lock with the
  relay and the verdict that follow it.  \<open>None\<close> is the undefined behaviour of
  \<open>discard_known\<close>.
\<close>

fun process_blink_signatures_step ::
  "nat \<Rightarrow> (blink_tx \<Rightarrow> bool \<Rightarrow> crypto_hash) \<Rightarrow> (crypto_hash \<Rightarrow> public_key \<Rightarrow> crypto_signature \<Rightarrow> bool)
    \<Rightarrow> quorum list \<Rightarrow> u64 \<Rightarrow> u64 \<Rightarrow> string \<Rightarrow> handler \<Rightarrow> blink_tx
    \<Rightarrow> (handler \<times> blink_tx) option" where
  "process_blink_signatures_step MIN_VOTES hash_of check_signature blink_quorums quorum_cs
       reply_to_tag reply_to (Called sigs received_from) btx =
     (case discard_known btx blink_quorums sigs of
        None \<Rightarrow> None
      | Some sigs1 \<Rightarrow>
          (let already_approved = approved MIN_VOTES btx;
               already_rejected = rejected_tx MIN_VOTES btx
           in if sigs1 = [] then Some (Finished [], btx)
              else Some (Checked sigs1 already_approved already_rejected received_from, btx)))"
| "process_blink_signatures_step MIN_VOTES hash_of check_signature blink_quorums quorum_cs
       reply_to_tag reply_to (Checked sigs1 already_approved already_rejected received_from) btx =
     (let sigs2 = discard_invalid hash_of check_signature btx blink_quorums sigs1
      in if sigs2 = [] then Some (Finished [], btx)
         else Some (Verified sigs2 already_approved already_rejected received_from, btx))"
| "process_blink_signatures_step MIN_VOTES hash_of check_signature blink_quorums quorum_cs
       reply_to_tag reply_to (Verified sigs2 already_approved already_rejected received_from) btx =
     (case store_signatures btx sigs2 of
        (btx', sigs3) \<Rightarrow>
          (let now_approved =
                 (if sigs3 \<noteq> [] then approved MIN_VOTES btx' else already_approved);
               now_rejected =
                 (if sigs3 \<noteq> [] then rejected_tx MIN_VOTES btx' else already_rejected)
           in if sigs3 = [] then Some (Finished [], btx')
              else
                Some (Finished
                        (Relay_to_peers ''blink_sign'' (blink_sign_data btx' quorum_cs sigs3)
                           received_from
                         # (if reply_to_tag \<noteq> 0 \<and> reply_to \<noteq> [] then
                              (if now_approved \<and> \<not> already_approved then
                                 [Send reply_to ''bl_good'' (bl_verdict reply_to_tag)]
                               else if now_rejected \<and> \<not> already_rejected then
                                 [Send reply_to ''bl_bad'' (bl_verdict reply_to_tag)]
                               else [])
                            else [])),
                      btx')))"
| "process_blink_signatures_step MIN_VOTES hash_of check_signature blink_quorums quorum_cs
       reply_to_tag reply_to (Finished out) btx = Some (Finished out, btx)"

fun sent_by :: "handler \<Rightarrow> sent list" where
  "sent_by (Finished out) = out"
| "sent_by (Called sigs received_from) = []"
| "sent_by (Checked sigs already_approved already_rejected received_from) = []"
| "sent_by (Verified sigs already_approved already_rejected received_from) = []"

text \<open>
  A call of \<open>process_blink_signatures\<close> that no other handler of the transaction
  interrupts, its three steps in a row: the blink transaction after the call and what was
  sent, in order.
\<close>

definition process_blink_signatures ::
  "nat \<Rightarrow> (blink_tx \<Rightarrow> bool \<Rightarrow> crypto_hash) \<Rightarrow> (crypto_hash \<Rightarrow> public_key \<Rightarrow> crypto_signature \<Rightarrow> bool)
    \<Rightarrow> blink_tx \<Rightarrow> quorum list \<Rightarrow> u64 \<Rightarrow> pending_signature list \<Rightarrow> u64 \<Rightarrow> string \<Rightarrow> string
    \<Rightarrow> (blink_tx \<times> sent list) option" where
  "process_blink_signatures MIN_VOTES hash_of check_signature btx blink_quorums quorum_cs sigs
       reply_to_tag reply_to received_from =
     Option.bind
       (process_blink_signatures_step MIN_VOTES hash_of check_signature blink_quorums quorum_cs
          reply_to_tag reply_to (Called sigs received_from) btx)
       (\<lambda>(h1, btx1).
     Option.bind
       (process_blink_signatures_step MIN_VOTES hash_of check_signature blink_quorums quorum_cs
          reply_to_tag reply_to h1 btx1)
       (\<lambda>(h2, btx2).
     Option.bind
       (process_blink_signatures_step MIN_VOTES hash_of check_signature blink_quorums quorum_cs
          reply_to_tag reply_to h2 btx2)
       (\<lambda>(h3, btx3). Some (btx3, sent_by h3))))"

text \<open>
  Calls of \<open>process_blink_signatures\<close> on one blink transaction, one after the other, each
  with its signatures and the peer they came from, all with the same reply tag and reply
  key: the transaction at the end and everything sent.
\<close>

fun process_blink_signatures_run ::
  "nat \<Rightarrow> (blink_tx \<Rightarrow> bool \<Rightarrow> crypto_hash) \<Rightarrow> (crypto_hash \<Rightarrow> public_key \<Rightarrow> crypto_signature \<Rightarrow> bool)
    \<Rightarrow> quorum list \<Rightarrow> u64 \<Rightarrow> u64 \<Rightarrow> string \<Rightarrow> blink_tx \<Rightarrow> (pending_signature list \<times> string) list
    \<Rightarrow> (blink_tx \<times> sent list) option" where
  "process_blink_signatures_run MIN_VOTES hash_of check_signature blink_quorums quorum_cs
       reply_to_tag reply_to btx [] = Some (btx, [])"
| "process_blink_signatures_run MIN_VOTES hash_of check_signature blink_quorums quorum_cs
       reply_to_tag reply_to btx ((sigs, received_from) # calls) =
     (case process_blink_signatures MIN_VOTES hash_of check_signature btx blink_quorums quorum_cs
             sigs reply_to_tag reply_to received_from of
        None \<Rightarrow> None
      | Some (btx1, sent1) \<Rightarrow>
          (case process_blink_signatures_run MIN_VOTES hash_of check_signature blink_quorums
                  quorum_cs reply_to_tag reply_to btx1 calls of
             None \<Rightarrow> None
           | Some (btx2, sent2) \<Rightarrow> Some (btx2, sent1 @ sent2)))"

text \<open>
  Handlers of one blink transaction on several threads, all with the same reply tag and
  reply key: the schedule names, step after step, the handler that runs its next step on
  the transaction as the others have left it.  A number that names no handler is passed
  over.
\<close>

fun run_handlers ::
  "nat \<Rightarrow> (blink_tx \<Rightarrow> bool \<Rightarrow> crypto_hash) \<Rightarrow> (crypto_hash \<Rightarrow> public_key \<Rightarrow> crypto_signature \<Rightarrow> bool)
    \<Rightarrow> quorum list \<Rightarrow> u64 \<Rightarrow> u64 \<Rightarrow> string \<Rightarrow> nat list \<Rightarrow> handler list \<Rightarrow> blink_tx
    \<Rightarrow> (handler list \<times> blink_tx) option" where
  "run_handlers MIN_VOTES hash_of check_signature blink_quorums quorum_cs reply_to_tag reply_to
       [] handlers btx = Some (handlers, btx)"
| "run_handlers MIN_VOTES hash_of check_signature blink_quorums quorum_cs reply_to_tag reply_to
       (t # schedule) handlers btx =
     (if t < length handlers then
        (case process_blink_signatures_step MIN_VOTES hash_of check_signature blink_quorums
                quorum_cs reply_to_tag reply_to (handlers ! t) btx of
           None \<Rightarrow> None
         | Some (h, btx') \<Rightarrow>
             run_handlers MIN_VOTES hash_of check_signature blink_quorums quorum_cs reply_to_tag
               reply_to schedule (handlers[t := h]) btx')
      else
        run_handlers MIN_VOTES hash_of check_signature blink_quorums quorum_cs reply_to_tag
          reply_to schedule handlers btx)"

text \<open>
  For the examples: a blink transaction of ten slots in each subquorum, in which the
  first six slots of the first subquorum and the first seven of the second are approved;
  a signature check that accepts the signature \<open>sig\<close> followed by the signer's key; and
  the hash of a transaction.
\<close>

definition approved_slot :: "signature_status \<times> crypto_signature" where
  "approved_slot = (sig_approved, sample_signature)"

definition empty_slot :: "signature_status \<times> crypto_signature" where
  "empty_slot = (sig_none, null_signature)"

definition sample_btx :: blink_tx where
  "sample_btx =
     \<lparr>height = 100, tx = sample_hash,
      signature_slots =
        [[approved_slot, approved_slot, approved_slot, approved_slot, approved_slot,
          approved_slot, empty_slot, empty_slot, empty_slot, empty_slot],
         [approved_slot, approved_slot, approved_slot, approved_slot, approved_slot,
          approved_slot, approved_slot, empty_slot, empty_slot, empty_slot]]\<rparr>"

definition sample_check :: "crypto_hash \<Rightarrow> public_key \<Rightarrow> crypto_signature \<Rightarrow> bool" where
  "sample_check h pk sig = (sig = ''sig'' @ pk)"

definition sample_hash_of :: "blink_tx \<Rightarrow> bool \<Rightarrow> crypto_hash" where
  "sample_hash_of btx approval = (if approval then CHR ''A'' else CHR ''R'') # tx btx"

chapter \<open>Properties\<close>

section \<open>Exceptions pass through\<close>

lemma bindE_Inr [simp]: "bindE (Inr x) f = f x"
  by (simp add: bindE_def)

lemma bindE_Inl [simp]: "bindE (Inl e) f = Inl e"
  by (simp add: bindE_def)

section \<open>The sweep of pending submissions\<close>

lemma send_blink_sweep_kept:
  "fst (send_blink_sweep now h tbl found) = filter (\<lambda>(tag, brd). expiry brd < now) tbl"
proof (induction tbl arbitrary: found)
  case Nil
  show ?case by simp
next
  case (Cons e rest)
  obtain tag brd where e: "e = (tag, brd)" by (cases e)
  let ?f = "if \<not> found \<and> hash brd = h then True else found"
  obtain k1 r1 f1 where s1: "send_blink_sweep now h rest found = (k1, r1, f1)"
    by (cases "send_blink_sweep now h rest found")
  obtain k2 r2 f2 where s2: "send_blink_sweep now h rest ?f = (k2, r2, f2)"
    by (cases "send_blink_sweep now h rest ?f")
  have k1: "k1 = filter (\<lambda>(tag, brd). expiry brd < now) rest"
    using Cons.IH [of found] s1 by simp
  have k2: "k2 = filter (\<lambda>(tag, brd). expiry brd < now) rest"
    using Cons.IH [of ?f] s2 by simp
  show ?case
  proof (cases "expiry brd \<ge> now")
    case True
    then show ?thesis using e s1 k1 by simp
  next
    case False
    then show ?thesis using e s2 k2 by simp
  qed
qed

text \<open>
  C1.  The claim: a call of \<open>send_blink\<close> with a parseable transaction resolves with
  \<open>(timeout, "Blink quorum timeout")\<close> and erases exactly the entries whose expiry is earlier
  than now, and keeps the others unresolved.  The code tests \<open>brd.expiry >= now\<close>: at time
  50, the entry with tag 5 that expires at 100 is timed out and erased, and the entry with
  tag 6 that expired at 10 stays in the table, unresolved.
\<close>

theorem send_blink_times_out_live_entry:
  "send_blink (Some ''tx3'') 50 50 [9]
     [(5, \<lparr>hash = ''tx1'', promise = None, expiry = 100, remote_count = 4,
           nostart_count = 0, bad_count = 0, good_count = 0\<rparr>),
      (6, \<lparr>hash = ''tx2'', promise = None, expiry = 10, remote_count = 4,
           nostart_count = 0, bad_count = 0, good_count = 0\<rparr>)]
   = Some \<lparr>pending_blink_results =
            [(9, \<lparr>hash = ''tx3'', promise = None, expiry = 80, remote_count = 0,
                  nostart_count = 0, bad_count = 0, good_count = 0\<rparr>),
             (6, \<lparr>hash = ''tx2'', promise = None, expiry = 10, remote_count = 4,
                  nostart_count = 0, bad_count = 0, good_count = 0\<rparr>)],
           future = None,
           timed_out = [(5, (timeout, ''Blink quorum timeout''))],
           blink_tag = 9\<rparr>"
  by (simp add: send_blink_def try_set_value_def MAX_ACTIVE_PROMISES_def)

section \<open>Responses of the entry nodes\<close>

lemma get_int_uint [simp]: "get_int (BT_int (uint (w :: 'a::len word))) = (Inr w :: exn + 'a word)"
proof -
  have "uint w < 2 ^ LENGTH('a)" by (rule uint_lt2p)
  then show ?thesis by simp
qed

lemma common_blink_response_absent:
  "map_of tbl tag = None \<Longrightarrow> common_blink_response tag res msg n b g tbl = (tbl, [])"
  by (simp add: common_blink_response_def)

lemma common_blink_response_nostart:
  "map_of tbl tag = Some pbr \<Longrightarrow>
   common_blink_response tag res msg True b g tbl =
     (if sint (nostart_count pbr + 1) > sint (remote_count pbr) sdiv 2 \<and> promise pbr = None
      then (AList.delete tag tbl, [(tag, (res, msg))])
      else (AList.update tag (pbr\<lparr>nostart_count := nostart_count pbr + 1\<rparr>) tbl, []))"
  by (cases pbr; cases "promise pbr")
    (simp_all add: common_blink_response_def try_set_value_def Let_def)

lemma common_blink_response_bad:
  "map_of tbl tag = Some pbr \<Longrightarrow>
   common_blink_response tag res msg False True g tbl =
     (if sint (bad_count pbr + 1) > sint (remote_count pbr) sdiv 2 \<and> promise pbr = None
      then (AList.delete tag tbl, [(tag, (res, msg))])
      else (AList.update tag (pbr\<lparr>bad_count := bad_count pbr + 1\<rparr>) tbl, []))"
  by (cases pbr; cases "promise pbr")
    (simp_all add: common_blink_response_def try_set_value_def Let_def)

lemma common_blink_response_good:
  "map_of tbl tag = Some pbr \<Longrightarrow>
   common_blink_response tag res msg False False g tbl =
     (if sint (good_count pbr + 1) > sint (remote_count pbr) sdiv 2 \<and> promise pbr = None
      then (AList.delete tag tbl, [(tag, (res, msg))])
      else (AList.update tag (pbr\<lparr>good_count := good_count pbr + 1\<rparr>) tbl, []))"
  by (cases pbr; cases "promise pbr")
    (simp_all add: common_blink_response_def try_set_value_def Let_def)

lemma handle_blink_not_started_response:
  "handle_blink_not_started \<lparr>data = [bl_nostart tag e], pubkey = pk, sn = s\<rparr> tbl =
     Inr (common_blink_response tag rejected e True False False tbl)"
  by (simp add: handle_blink_not_started_def bl_nostart_def bindE_def dict_at_def
        del: get_int.simps)

lemma handle_blink_failure_response:
  "handle_blink_failure \<lparr>data = [bl_verdict tag], pubkey = pk, sn = s\<rparr> tbl =
     Inr (common_blink_response tag rejected ''Transaction rejected by quorum'' False True False tbl)"
  by (simp add: handle_blink_failure_def bl_verdict_def bindE_def dict_at_def
        del: get_int.simps)

lemma handle_blink_success_response:
  "handle_blink_success \<lparr>data = [bl_verdict tag], pubkey = pk, sn = s\<rparr> tbl =
     Inr (common_blink_response tag accepted '''' False False True tbl)"
  by (simp add: handle_blink_success_def bl_verdict_def bindE_def dict_at_def
        del: get_int.simps)

text \<open>
  C8.  An entry-node response (\<open>bl_nostart\<close>, \<open>bl_bad\<close> or \<open>bl_good\<close>) that carries tag \<open>t\<close>:
  when the table has no entry for \<open>t\<close> nothing changes and nothing is resolved; when it has
  the entry \<open>pbr\<close>, the counter of the response's kind goes up by one, and the promise is
  resolved, with \<open>(rejected, e)\<close>, \<open>(rejected, "Transaction rejected by quorum")\<close> or
  \<open>(accepted, "")\<close>, and the entry erased, exactly when the incremented counter is above
  \<open>remote_count / 2\<close> and the promise has no value yet (so it is never resolved twice);
  otherwise the entry stays, with the new count.
\<close>

theorem entry_node_response:
  "(map_of tbl t = None \<longrightarrow>
      handle_blink_not_started \<lparr>data = [bl_nostart t e], pubkey = pk, sn = s\<rparr> tbl = Inr (tbl, []) \<and>
      handle_blink_failure \<lparr>data = [bl_verdict t], pubkey = pk, sn = s\<rparr> tbl = Inr (tbl, []) \<and>
      handle_blink_success \<lparr>data = [bl_verdict t], pubkey = pk, sn = s\<rparr> tbl = Inr (tbl, []))
   \<and>
   (\<forall>pbr. map_of tbl t = Some pbr \<longrightarrow>
      handle_blink_not_started \<lparr>data = [bl_nostart t e], pubkey = pk, sn = s\<rparr> tbl =
        Inr (if sint (nostart_count pbr + 1) > sint (remote_count pbr) sdiv 2 \<and> promise pbr = None
             then (AList.delete t tbl, [(t, (rejected, e))])
             else (AList.update t (pbr\<lparr>nostart_count := nostart_count pbr + 1\<rparr>) tbl, [])) \<and>
      handle_blink_failure \<lparr>data = [bl_verdict t], pubkey = pk, sn = s\<rparr> tbl =
        Inr (if sint (bad_count pbr + 1) > sint (remote_count pbr) sdiv 2 \<and> promise pbr = None
             then (AList.delete t tbl, [(t, (rejected, ''Transaction rejected by quorum''))])
             else (AList.update t (pbr\<lparr>bad_count := bad_count pbr + 1\<rparr>) tbl, [])) \<and>
      handle_blink_success \<lparr>data = [bl_verdict t], pubkey = pk, sn = s\<rparr> tbl =
        Inr (if sint (good_count pbr + 1) > sint (remote_count pbr) sdiv 2 \<and> promise pbr = None
             then (AList.delete t tbl, [(t, (accepted, ''''))])
             else (AList.update t (pbr\<lparr>good_count := good_count pbr + 1\<rparr>) tbl, [])))"
proof (intro conjI impI allI)
  assume "map_of tbl t = None"
  then show "handle_blink_not_started \<lparr>data = [bl_nostart t e], pubkey = pk, sn = s\<rparr> tbl = Inr (tbl, [])"
    and "handle_blink_failure \<lparr>data = [bl_verdict t], pubkey = pk, sn = s\<rparr> tbl = Inr (tbl, [])"
    and "handle_blink_success \<lparr>data = [bl_verdict t], pubkey = pk, sn = s\<rparr> tbl = Inr (tbl, [])"
    by (simp_all only: handle_blink_not_started_response handle_blink_failure_response
          handle_blink_success_response common_blink_response_absent)
next
  fix pbr assume "map_of tbl t = Some pbr"
  then show "handle_blink_not_started \<lparr>data = [bl_nostart t e], pubkey = pk, sn = s\<rparr> tbl =
        Inr (if sint (nostart_count pbr + 1) > sint (remote_count pbr) sdiv 2 \<and> promise pbr = None
             then (AList.delete t tbl, [(t, (rejected, e))])
             else (AList.update t (pbr\<lparr>nostart_count := nostart_count pbr + 1\<rparr>) tbl, []))"
    by (simp only: handle_blink_not_started_response common_blink_response_nostart)
next
  fix pbr assume "map_of tbl t = Some pbr"
  then show "handle_blink_failure \<lparr>data = [bl_verdict t], pubkey = pk, sn = s\<rparr> tbl =
        Inr (if sint (bad_count pbr + 1) > sint (remote_count pbr) sdiv 2 \<and> promise pbr = None
             then (AList.delete t tbl, [(t, (rejected, ''Transaction rejected by quorum''))])
             else (AList.update t (pbr\<lparr>bad_count := bad_count pbr + 1\<rparr>) tbl, []))"
    by (simp only: handle_blink_failure_response common_blink_response_bad)
next
  fix pbr assume "map_of tbl t = Some pbr"
  then show "handle_blink_success \<lparr>data = [bl_verdict t], pubkey = pk, sn = s\<rparr> tbl =
        Inr (if sint (good_count pbr + 1) > sint (remote_count pbr) sdiv 2 \<and> promise pbr = None
             then (AList.delete t tbl, [(t, (accepted, ''''))])
             else (AList.update t (pbr\<lparr>good_count := good_count pbr + 1\<rparr>) tbl, []))"
    by (simp only: handle_blink_success_response common_blink_response_good)
qed

text \<open>
  The third \<open>bl_good\<close> of four entry nodes resolves the submission with tag 7, and a
  \<open>bl_good\<close> for a tag that is not pending does nothing.
\<close>

theorem entry_node_response_witness:
  "handle_blink_success \<lparr>data = [bl_verdict 7], pubkey = ''sn1'', sn = True\<rparr>
     [(7, \<lparr>hash = ''tx1'', promise = None, expiry = 100, remote_count = 4,
           nostart_count = 0, bad_count = 0, good_count = 2\<rparr>)]
   = Inr ([], [(7, (accepted, ''''))])
   \<and> handle_blink_success \<lparr>data = [bl_verdict 8], pubkey = ''sn1'', sn = True\<rparr>
     [(7, \<lparr>hash = ''tx1'', promise = None, expiry = 100, remote_count = 4,
           nostart_count = 0, bad_count = 0, good_count = 2\<rparr>)]
   = Inr ([(7, \<lparr>hash = ''tx1'', promise = None, expiry = 100, remote_count = 4,
           nostart_count = 0, bad_count = 0, good_count = 2\<rparr>)], [])"
proof -
  let ?pbr = "\<lparr>hash = ''tx1'', promise = None, expiry = 100, remote_count = 4 :: int32,
           nostart_count = 0 :: int32, bad_count = 0 :: int32, good_count = 2 :: int32\<rparr>"
  have present: "map_of [(7 :: u64, ?pbr)] 7 = Some ?pbr" by simp
  have absent: "map_of [(7 :: u64, ?pbr)] 8 = None" by simp
  have maj: "sint (good_count ?pbr + 1) > sint (remote_count ?pbr) sdiv 2 \<and> promise ?pbr = None"
    by (simp add: signed_divide_int_def)
  note th = entry_node_response [of "[(7, ?pbr)]" _ "''''" "''sn1''" True]
  have a: "handle_blink_success \<lparr>data = [bl_verdict 7], pubkey = ''sn1'', sn = True\<rparr> [(7, ?pbr)]
      = Inr ([], [(7, (accepted, ''''))])"
    using th [of 7, THEN conjunct2, rule_format, OF present] maj by simp
  have b: "handle_blink_success \<lparr>data = [bl_verdict 8], pubkey = ''sn1'', sn = True\<rparr> [(7, ?pbr)]
      = Inr ([(7, ?pbr)], [])"
    using th [of 8, THEN conjunct1, rule_format, OF absent] by simp
  show ?thesis using a b by simp
qed

text \<open>
  Every entry of the table holds a promise with no value: \<open>send_blink\<close> and the response
  handlers keep it so, since whatever sets a promise erases the entry.
\<close>

lemma set_AList_update: "set (AList.update k v al) \<subseteq> insert (k, v) (set al)"
  by (induction al) auto

lemma set_AList_delete: "set (AList.delete k al) \<subseteq> set al"
  by (induction al) auto

lemma common_blink_response_table:
  assumes "map_of tbl tag = Some pbr" and "promise pbr = None"
  shows "\<exists>pbr'. promise pbr' = None
           \<and> (fst (common_blink_response tag res msg n b g tbl) = AList.delete tag tbl
                \<or> fst (common_blink_response tag res msg n b g tbl) = AList.update tag pbr' tbl)"
proof (cases n)
  case True
  show ?thesis
    by (rule exI [of _ "pbr\<lparr>nostart_count := nostart_count pbr + 1\<rparr>"])
       (simp add: True common_blink_response_nostart [OF assms(1)] assms(2))
next
  case False
  show ?thesis
  proof (cases b)
    case True
    show ?thesis
      by (rule exI [of _ "pbr\<lparr>bad_count := bad_count pbr + 1\<rparr>"])
         (simp add: \<open>\<not> n\<close> True common_blink_response_bad [OF assms(1)] assms(2))
  next
    case nb: False
    show ?thesis
      by (rule exI [of _ "pbr\<lparr>good_count := good_count pbr + 1\<rparr>"])
         (simp add: \<open>\<not> n\<close> nb common_blink_response_good [OF assms(1)] assms(2))
  qed
qed

lemma common_blink_response_unresolved:
  assumes "\<forall>e \<in> set tbl. promise (snd e) = None"
  shows "\<forall>e \<in> set (fst (common_blink_response tag res msg n b g tbl)). promise (snd e) = None"
proof (cases "map_of tbl tag")
  case None
  with assms show ?thesis by (simp add: common_blink_response_def)
next
  case (Some pbr)
  then have "(tag, pbr) \<in> set tbl" by (rule map_of_SomeD)
  with assms have unset: "promise pbr = None" by auto
  from common_blink_response_table [OF Some unset, of res msg n b g]
  obtain pbr' where new: "promise pbr' = None"
    and tbl': "fst (common_blink_response tag res msg n b g tbl) = AList.delete tag tbl
             \<or> fst (common_blink_response tag res msg n b g tbl) = AList.update tag pbr' tbl"
    by blast
  from tbl' show ?thesis
  proof
    assume "fst (common_blink_response tag res msg n b g tbl) = AList.delete tag tbl"
    with set_AList_delete [of tag tbl] assms show ?thesis by auto
  next
    assume "fst (common_blink_response tag res msg n b g tbl) = AList.update tag pbr' tbl"
    with set_AList_update [of tag pbr' tbl] assms new show ?thesis by auto
  qed
qed

lemma send_blink_unresolved:
  assumes "\<forall>e \<in> set tbl. promise (snd e) = None"
      and "send_blink parsed now now2 rng tbl = Some st"
  shows "\<forall>e \<in> set (pending_blink_results st). promise (snd e) = None"
proof (cases parsed)
  case None
  with assms show ?thesis by (auto simp add: send_blink_def)
next
  case (Some h)
  obtain kept resolved found where sw: "send_blink_sweep now h tbl False = (kept, resolved, found)"
    by (cases "send_blink_sweep now h tbl False")
  with send_blink_sweep_kept [of now h tbl False]
  have "kept = filter (\<lambda>(tag, brd). expiry brd < now) tbl" by simp
  with assms(1) have kept: "\<forall>e \<in> set kept. promise (snd e) = None" by auto
  from assms(2) Some sw kept show ?thesis
    by (auto simp add: send_blink_def split: if_splits option.splits)
qed

section \<open>Votes: serialisation and its inverse\<close>

lemma get_enum_quorum_type:
  "map_of d k = Some (BT_int (quorum_type_underlying t)) \<Longrightarrow>
   get_enum quorum_type_values get_u8 d k = Inr t"
  by (cases t) (simp_all add: get_enum_def get_u8_def bindE_def dict_at_def quorum_type_values_def)

lemma get_enum_quorum_group:
  "map_of d k = Some (BT_int (quorum_group_underlying g)) \<Longrightarrow>
   get_enum quorum_group_values get_u8 d k = Inr g"
  by (cases g) (simp_all add: get_enum_def get_u8_def bindE_def dict_at_def quorum_group_values_def)

lemma get_enum_new_state:
  "map_of d k = Some (BT_int (new_state_underlying st)) \<Longrightarrow>
   get_enum new_state_values get_u16 d k = Inr st"
  by (cases st) (simp_all add: get_enum_def get_u16_def bindE_def dict_at_def new_state_values_def)

lemma dict_at_get_int_uint:
  "map_of d k = Some (BT_int (uint (w :: 'a::len word))) \<Longrightarrow>
   bindE (dict_at d k) get_int = (Inr w :: exn + 'a word)"
  by (simp add: dict_at_def bindE_def del: get_int.simps)

lemma dict_at_get_string:
  "map_of d k = Some (BT_string s) \<Longrightarrow> bindE (dict_at d k) get_string = Inr s"
  by (simp add: dict_at_def bindE_def)

text \<open>
  Whatever target state a state-change vote carries, the vote read back carries the value
  the local variable happened to hold.
\<close>

lemma deserialize_serialize_state_change:
  assumes "legal_vote vote" and "payload vote = State_change wi st"
  shows "\<exists>d. serialize_vote vote = Some d \<and>
             deserialize_vote u (BT_dict d) = Inr (vote\<lparr>payload := State_change wi u\<rparr>)"
proof -
  from assms have ty: "vote_type vote \<noteq> checkpointing" and g: "group vote \<noteq> invalid"
    and len: "length (signature vote) = 64"
    by (simp_all add: legal_vote_def)
  let ?d = "[(''v'', BT_int (uint (version vote))),
             (''t'', BT_int (quorum_type_underlying (vote_type vote))),
             (''h'', BT_int (uint (block_height vote))),
             (''g'', BT_int (quorum_group_underlying (group vote))),
             (''i'', BT_int (uint (index_in_group vote))),
             (''s'', BT_string (signature vote)),
             (''wi'', BT_int (uint wi)),
             (''sc'', BT_int (new_state_underlying st))]"
  have ser: "serialize_vote vote = Some ?d"
    using ty assms(2) by (simp add: serialize_vote_def)
  have v: "bindE (dict_at ?d ''v'') get_int = (Inr (version vote) :: exn + u8)"
    by (rule dict_at_get_int_uint) simp
  have t: "get_enum quorum_type_values get_u8 ?d ''t'' = Inr (vote_type vote)"
    by (rule get_enum_quorum_type) simp
  have h: "bindE (dict_at ?d ''h'') get_int = (Inr (block_height vote) :: exn + u64)"
    by (rule dict_at_get_int_uint) simp
  have gg: "get_enum quorum_group_values get_u8 ?d ''g'' = Inr (group vote)"
    by (rule get_enum_quorum_group) simp
  have i: "bindE (dict_at ?d ''i'') get_int = (Inr (index_in_group vote) :: exn + u16)"
    by (rule dict_at_get_int_uint) simp
  have s: "bindE (dict_at ?d ''s'') get_string = Inr (signature vote)"
    by (rule dict_at_get_string) simp
  have w: "bindE (dict_at ?d ''wi'') get_int = (Inr wi :: exn + u16)"
    by (rule dict_at_get_int_uint) simp
  have sc: "get_enum new_state_values get_u16 ?d ''sc'' = Inr st"
    by (rule get_enum_new_state) simp
  have "deserialize_vote u (BT_dict ?d) = Inr (vote\<lparr>payload := State_change wi u\<rparr>)"
    unfolding deserialize_vote_def get_dict.simps bindE_Inr
    by (simp only: v t h gg i s w sc bindE_Inr) (simp add: g len ty)
  with ser show ?thesis by blast
qed

text \<open>A checkpointing vote comes back as it was sent.\<close>

lemma deserialize_serialize_checkpoint:
  assumes "legal_vote vote" and "payload vote = Checkpoint bh"
  shows "\<exists>d. serialize_vote vote = Some d \<and> deserialize_vote u (BT_dict d) = Inr vote"
proof -
  from assms have ty: "vote_type vote = checkpointing" and g: "group vote \<noteq> invalid"
    and len: "length (signature vote) = 64" and lbh: "length bh = 32"
    by (simp_all add: legal_vote_def)
  let ?d = "[(''v'', BT_int (uint (version vote))),
             (''t'', BT_int (quorum_type_underlying (vote_type vote))),
             (''h'', BT_int (uint (block_height vote))),
             (''g'', BT_int (quorum_group_underlying (group vote))),
             (''i'', BT_int (uint (index_in_group vote))),
             (''s'', BT_string (signature vote)),
             (''bh'', BT_string bh)]"
  have ser: "serialize_vote vote = Some ?d"
    using ty assms(2) by (simp add: serialize_vote_def)
  have v: "bindE (dict_at ?d ''v'') get_int = (Inr (version vote) :: exn + u8)"
    by (rule dict_at_get_int_uint) simp
  have t: "get_enum quorum_type_values get_u8 ?d ''t'' = Inr (vote_type vote)"
    by (rule get_enum_quorum_type) simp
  have h: "bindE (dict_at ?d ''h'') get_int = (Inr (block_height vote) :: exn + u64)"
    by (rule dict_at_get_int_uint) simp
  have gg: "get_enum quorum_group_values get_u8 ?d ''g'' = Inr (group vote)"
    by (rule get_enum_quorum_group) simp
  have i: "bindE (dict_at ?d ''i'') get_int = (Inr (index_in_group vote) :: exn + u16)"
    by (rule dict_at_get_int_uint) simp
  have s: "bindE (dict_at ?d ''s'') get_string = Inr (signature vote)"
    by (rule dict_at_get_string) simp
  have b: "bindE (dict_at ?d ''bh'') get_string = Inr bh"
    by (rule dict_at_get_string) simp
  have "deserialize_vote u (BT_dict ?d) = Inr vote"
    unfolding deserialize_vote_def get_dict.simps bindE_Inr
    by (simp only: v t h gg i s b bindE_Inr) (simp add: g len ty lbh assms(2) [symmetric])
  with ser show ?thesis by blast
qed

text \<open>
  C3.  The claim: \<open>deserialize_vote (serialize_vote v)\<close> equals \<open>v\<close> in every field for every
  legal vote, the target state of a state-change vote included.  The code reads the field
  \<open>sc\<close> and drops it: a legal obligations vote to decommission worker 3 comes back as a
  vote to deregister it when the receiving local held \<open>deregister\<close> (the zero value).
\<close>

theorem deserialize_vote_loses_state:
  "legal_vote \<lparr>version = 0, vote_type = obligations, block_height = 100, group = validator,
               index_in_group = 2, signature = sample_signature,
               payload = State_change 3 decommission\<rparr>
   \<and> serialize_vote \<lparr>version = 0, vote_type = obligations, block_height = 100,
        group = validator, index_in_group = 2, signature = sample_signature,
        payload = State_change 3 decommission\<rparr>
     = Some [(''v'', BT_int 0), (''t'', BT_int 0), (''h'', BT_int 100), (''g'', BT_int 1),
             (''i'', BT_int 2), (''s'', BT_string sample_signature), (''wi'', BT_int 3),
             (''sc'', BT_int 1)]
   \<and> deserialize_vote deregister
        (BT_dict [(''v'', BT_int 0), (''t'', BT_int 0), (''h'', BT_int 100), (''g'', BT_int 1),
             (''i'', BT_int 2), (''s'', BT_string sample_signature), (''wi'', BT_int 3),
             (''sc'', BT_int 1)])
     = Inr \<lparr>version = 0, vote_type = obligations, block_height = 100, group = validator,
            index_in_group = 2, signature = sample_signature,
            payload = State_change 3 deregister\<rparr>"
  by (simp add: legal_vote_def serialize_vote_def deserialize_vote_def bindE_def dict_at_def
        get_enum_def get_u8_def get_u16_def quorum_type_values_def quorum_group_values_def
        new_state_values_def sample_signature_def)

section \<open>Blink signatures: the required fields\<close>

text \<open>
  With all four flags \<open>false\<close> at the start, a flag is \<open>true\<close> after the loop only when its
  list was in the message, and a message that lacks one of the lists is rejected.
\<close>

lemma blink_sign_input_flags:
  assumes "blink_sign_input n (k, v) l = Inr l'"
  shows "(k \<noteq> ''i'' \<longrightarrow> saw_i l' = saw_i l) \<and> (k \<noteq> ''r'' \<longrightarrow> saw_r l' = saw_r l)
       \<and> (k \<noteq> ''p'' \<longrightarrow> saw_p l' = saw_p l) \<and> (k \<noteq> ''s'' \<longrightarrow> saw_s l' = saw_s l)"
  using assms
  by (auto simp add: blink_sign_input_def bindE_def split: if_splits sum.splits)

lemma blink_sign_inputs_flags:
  assumes "blink_sign_inputs n d l = Inr l'"
  shows "(''i'' \<notin> fst ` set d \<longrightarrow> saw_i l' = saw_i l) \<and> (''r'' \<notin> fst ` set d \<longrightarrow> saw_r l' = saw_r l)
       \<and> (''p'' \<notin> fst ` set d \<longrightarrow> saw_p l' = saw_p l) \<and> (''s'' \<notin> fst ` set d \<longrightarrow> saw_s l' = saw_s l)"
  using assms
proof (induction d arbitrary: l)
  case Nil
  then show ?case by simp
next
  case (Cons input d)
  obtain k v where input: "input = (k, v)" by (cases input)
  from Cons.prems input obtain l1 where
    one: "blink_sign_input n (k, v) l = Inr l1" and rest: "blink_sign_inputs n d l1 = Inr l'"
    by (cases "blink_sign_input n (k, v) l") auto
  from blink_sign_input_flags [OF one] Cons.IH [OF rest] input show ?case by auto
qed

lemma handle_blink_signature_rejects_missing_list:
  assumes "\<not> stack_saw_i stack" and "\<not> stack_saw_r stack"
      and "\<not> stack_saw_p stack" and "\<not> stack_saw_s stack"
      and "''i'' \<notin> fst ` set d \<or> ''r'' \<notin> fst ` set d \<or> ''p'' \<notin> fst ` set d \<or> ''s'' \<notin> fst ` set d"
  shows "\<exists>e. handle_blink_signature_fields n stack \<lparr>data = [BT_dict d], pubkey = pk, sn = s\<rparr> = Inl e"
proof (cases "blink_sign_inputs n d (initial_locals stack)")
  case (Inl e)
  then show ?thesis by (simp add: handle_blink_signature_fields_def)
next
  case (Inr l)
  from blink_sign_inputs_flags [OF Inr] assms
  have "\<not> (saw_i l \<and> saw_r l \<and> saw_p l \<and> saw_s l)"
    by (auto simp add: initial_locals_def)
  with Inr show ?thesis by (auto simp add: handle_blink_signature_fields_def)
qed

text \<open>
  C9.  The claim: a \<open>blink_sign\<close> message that has \<open>h\<close>, \<open>#\<close> and \<open>q\<close> but lacks one of the
  lists \<open>i\<close>, \<open>p\<close>, \<open>r\<close>, \<open>s\<close> is rejected with an invalid-argument error before any signature
  is processed.  The flags \<open>saw_i\<close>, \<open>saw_r\<close>, \<open>saw_p\<close>, \<open>saw_s\<close> are not initialised: a message
  without the list \<open>s\<close>, handled while the stack slot of \<open>saw_s\<close> holds \<open>true\<close>, passes the
  test, and the handler goes on with one signature made of zero bytes.
\<close>

theorem handle_blink_signature_accepts_missing_s:
  "handle_blink_signature_fields 10
     \<lparr>stack_tx_hash = [], stack_saw_i = False, stack_saw_r = False, stack_saw_p = False,
      stack_saw_s = True\<rparr>
     \<lparr>data = [BT_dict [(''#'', BT_string sample_hash), (''h'', BT_int 5),
                       (''i'', BT_list [BT_int 1]), (''p'', BT_list [BT_int 3]),
                       (''q'', BT_int 99), (''r'', BT_list [BT_int 1])]],
      pubkey = ''sn1'', sn = True\<rparr>
   = Inr \<lparr>l_blink_height = 5, l_checksum = 99, l_tx_hash = sample_hash,
          saw_checksum = True, saw_hash = True, saw_i = True, saw_r = True, saw_p = True,
          saw_s = True, l_signatures = [(True, 1, 3, null_signature)]\<rparr>"
  by (simp add: handle_blink_signature_fields_def initial_locals_def blink_sign_input_def
        copy_signature_values_def copy_i_def copy_r_def copy_p_def value_initialized_def
        NUM_BLINK_QUORUMS_def sample_hash_def)

section \<open>The blink quorums\<close>

lemma blink_quorum_indices: "[0..<NUM_BLINK_QUORUMS] = [0, 1]"
  by (simp add: NUM_BLINK_QUORUMS_def upt_rec)

lemma bindO_simps [simp]:
  "bindO (Returned x) f = f x"
  "bindO (Thrown e) f = Thrown e"
  "bindO Null_dereference f = Null_dereference"
  by (simp_all add: bindO_def)

lemma of_sum_simps [simp]:
  "of_sum (Inr x) = Returned x"
  "of_sum (Inl e) = Thrown e"
  by (simp_all add: of_sum_def)

text \<open>
  C10.  The claim: when the quorum source has no quorum for one of the two subquorums,
  \<open>get_blink_quorums\<close> reports an error and does not read the validators through the
  absent quorum.  The code stores the result of \<open>get_quorum\<close> and reads
  \<open>result[qi]->validators\<close> at once: with no quorum at height 100 the call neither returns
  nor throws, it goes through the null pointer.
\<close>

theorem get_blink_quorums_reads_absent_quorum:
  "get_blink_quorums (sample_core (\<lambda>h qi. h) (\<lambda>h. None) 100) 100 None = Null_dereference"
  by (simp add: get_blink_quorums_def sample_core_def blink_quorum_indices)

section \<open>The height test of \<open>handle_blink\<close>\<close>

text \<open>
  The two comparisons of the source, on 64-bit words, reject every height that is more
  than 2 away from the chain height; they agree with \<open>|h - c| > 2\<close> when neither \<open>c - 2\<close>
  nor \<open>c + 2\<close> wraps.
\<close>

lemma height_test_rejects_far:
  fixes c h :: u64
  assumes "unat h + 2 < unat c \<or> unat c + 2 < unat h"
  shows "h < c - 2 \<or> h > c + 2"
proof -
  have hb: "unat h < 2 ^ 64" using unsigned_less [of h] by simp
  from assms show ?thesis
  proof
    assume l: "unat h + 2 < unat c"
    then have "unat (c - 2) = unat c - 2" by (simp add: unat_sub word_le_nat_alt)
    with l have "unat h < unat (c - 2)" by arith
    then show ?thesis by (simp add: word_less_nat_alt)
  next
    assume r: "unat c + 2 < unat h"
    then have "unat (c + 2) = unat c + 2" using hb by (simp add: unat_add_lem [THEN iffD1])
    with r have "unat (c + 2) < unat h" by arith
    then show ?thesis by (simp add: word_less_nat_alt)
  qed
qed

lemma height_test_without_wrap:
  fixes c h :: u64
  assumes "2 \<le> unat c" and "unat c + 2 < 2 ^ 64"
  shows "(h < c - 2 \<or> h > c + 2) \<longleftrightarrow> (unat h + 2 < unat c \<or> unat c + 2 < unat h)"
proof -
  have a: "unat (c - 2) = unat c - 2" using assms(1) by (simp add: unat_sub word_le_nat_alt)
  have b: "unat (c + 2) = unat c + 2" using assms(2) by (simp add: unat_add_lem [THEN iffD1])
  show ?thesis unfolding word_less_nat_alt a b using assms by auto
qed

text \<open>
  C5.  The claim: for every chain height \<open>c\<close>, also \<open>c < 2\<close>, a blink at height \<open>h\<close> with
  \<open>|h - c| \<le> 2\<close> is not rejected on height grounds.  On a chain of height 1 the
  subtraction \<open>local_height - 2\<close> wraps to \<open>2^64 - 1\<close>, and a blink at height 1 with tag 7 is
  answered \<open>bl_nostart\<close> "Invalid blink authorization height".
\<close>

theorem handle_blink_rejects_height_on_short_chain:
  "handle_blink (sample_core qh quorums 1) (\<lambda>h. None)
     \<lparr>data = [BT_dict [(''!'', BT_int 7), (''#'', BT_string sample_hash), (''h'', BT_int 1),
                       (''q'', BT_int 30), (''t'', BT_string ''tx'')]],
      pubkey = ''client'', sn = False\<rparr>
   = Returned (Handler_returned
       [(''bl_nostart'', BT_dict [(''!'', BT_int 7),
                                 (''e'', BT_string ''Invalid blink authorization height'')])]
       (\<lambda>h. None))"
proof -
  have wrap: "(1 :: u64) < - 1" by code_simp
  show ?thesis
    by (simp add: handle_blink_def sample_core_def get_or_def dict_at_def
          nostart_and_return_def bl_nostart_def wrap)
qed

text \<open>
  What the call does in each case.  A subquorum whose quorum height is zero makes
  \<open>get_blink_quorums\<close> throw "too early in blockchain to create a quorum" (the subquorum
  before it, if any, being there with a size in range).  When both quorum heights are
  non-zero and the quorum source has both quorums, it throws when a size is out of range
  or the checksum given differs from the sum computed, and returns both subquorums
  otherwise; and the quorum step of \<open>handle_blink\<close> answers a non-zero tag with
  \<open>bl_nostart\<close>, the message being "Unable to retrieve blink quorum: " and the error's text,
  when it throws.
\<close>

lemma get_blink_quorums_checks:
  "(quorum_height c bh 0 = 0 \<longrightarrow>
      get_blink_quorums c bh (Some given)
        = Thrown (runtime_error ''too early in blockchain to create a quorum'')
      \<and>
      handle_blink_quorums c cache tag bh given
        = Returned (Handler_returned
            (if tag \<noteq> 0 then
               [(''bl_nostart'', bl_nostart tag
                   ''Unable to retrieve blink quorum: too early in blockchain to create a quorum'')]
             else []) cache))
   \<and>
   (\<forall>q0. quorum_height c bh 0 \<noteq> 0 \<and> get_quorum c blink (quorum_height c bh 0) = Some q0
         \<and> BLINK_MIN_VOTES c \<le> length (validators q0)
         \<and> length (validators q0) \<le> BLINK_SUBQUORUM_SIZE c
         \<and> quorum_height c bh 1 = 0 \<longrightarrow>
      get_blink_quorums c bh (Some given)
        = Thrown (runtime_error ''too early in blockchain to create a quorum'')
      \<and>
      handle_blink_quorums c cache tag bh given
        = Returned (Handler_returned
            (if tag \<noteq> 0 then
               [(''bl_nostart'', bl_nostart tag
                   ''Unable to retrieve blink quorum: too early in blockchain to create a quorum'')]
             else []) cache))
   \<and>
   (\<forall>q0 q1. quorum_height c bh 0 \<noteq> 0 \<and> quorum_height c bh 1 \<noteq> 0
         \<and> get_quorum c blink (quorum_height c bh 0) = Some q0
         \<and> get_quorum c blink (quorum_height c bh 1) = Some q1 \<longrightarrow>
      get_blink_quorums c bh (Some given)
        = (if \<not> spec_sizes_in_range c bh then
             Thrown (runtime_error ''not enough blink nodes to form a quorum'')
           else if given \<noteq> spec_checksum c bh then
             Thrown (runtime_error
               (''wrong quorum checksum: expected '' @ to_string_nat (unat (spec_checksum c bh))
                @ '', received '' @ to_string_nat (unat given)))
           else Returned ([q0, q1], spec_checksum c bh))
      \<and>
      handle_blink_quorums c cache tag bh given
        = Returned
           (if \<not> spec_sizes_in_range c bh then
              Handler_returned
                (if tag \<noteq> 0 then
                   [(''bl_nostart'', bl_nostart tag
                       ''Unable to retrieve blink quorum: not enough blink nodes to form a quorum'')]
                 else []) cache
            else if given \<noteq> spec_checksum c bh then
              Handler_returned
                (if tag \<noteq> 0 then
                   [(''bl_nostart'', bl_nostart tag
                       (''Unable to retrieve blink quorum: wrong quorum checksum: expected ''
                        @ to_string_nat (unat (spec_checksum c bh))
                        @ '', received '' @ to_string_nat (unat given)))]
                 else []) cache
            else Quorums_built [q0, q1] (spec_checksum c bh)))"
proof (intro conjI allI impI)
  assume "quorum_height c bh 0 = 0"
  then show e: "get_blink_quorums c bh (Some given)
        = Thrown (runtime_error ''too early in blockchain to create a quorum'')"
    by (simp add: get_blink_quorums_def blink_quorum_indices)
  show "handle_blink_quorums c cache tag bh given
        = Returned (Handler_returned
            (if tag \<noteq> 0 then
               [(''bl_nostart'', bl_nostart tag
                   ''Unable to retrieve blink quorum: too early in blockchain to create a quorum'')]
             else []) cache)"
    unfolding handle_blink_quorums_def e by (simp add: nostart_and_return_def)
next
  fix q0
  assume "quorum_height c bh 0 \<noteq> 0 \<and> get_quorum c blink (quorum_height c bh 0) = Some q0
         \<and> BLINK_MIN_VOTES c \<le> length (validators q0)
         \<and> length (validators q0) \<le> BLINK_SUBQUORUM_SIZE c
         \<and> quorum_height c bh 1 = 0"
  then show e: "get_blink_quorums c bh (Some given)
        = Thrown (runtime_error ''too early in blockchain to create a quorum'')"
    by (simp add: get_blink_quorums_def blink_quorum_indices)
  show "handle_blink_quorums c cache tag bh given
        = Returned (Handler_returned
            (if tag \<noteq> 0 then
               [(''bl_nostart'', bl_nostart tag
                   ''Unable to retrieve blink quorum: too early in blockchain to create a quorum'')]
             else []) cache)"
    unfolding handle_blink_quorums_def e by (simp add: nostart_and_return_def)
next
  fix q0 q1
  assume a: "quorum_height c bh 0 \<noteq> 0 \<and> quorum_height c bh 1 \<noteq> 0
         \<and> get_quorum c blink (quorum_height c bh 0) = Some q0
         \<and> get_quorum c blink (quorum_height c bh 1) = Some q1"
  then have sizes: "spec_sizes_in_range c bh \<longleftrightarrow>
      (BLINK_MIN_VOTES c \<le> length (validators q0) \<and> length (validators q0) \<le> BLINK_SUBQUORUM_SIZE c)
      \<and> (BLINK_MIN_VOTES c \<le> length (validators q1) \<and> length (validators q1) \<le> BLINK_SUBQUORUM_SIZE c)"
    by (simp add: spec_sizes_in_range_def spec_subquorum_def blink_quorum_indices)
  from a have sum: "spec_checksum c bh =
      quorum_checksum c (validators q0) 0
      + quorum_checksum c (validators q1) (BLINK_SUBQUORUM_SIZE c)"
    by (simp add: spec_checksum_def spec_subquorum_def blink_quorum_indices)
  show g: "get_blink_quorums c bh (Some given)
        = (if \<not> spec_sizes_in_range c bh then
             Thrown (runtime_error ''not enough blink nodes to form a quorum'')
           else if given \<noteq> spec_checksum c bh then
             Thrown (runtime_error
               (''wrong quorum checksum: expected '' @ to_string_nat (unat (spec_checksum c bh))
                @ '', received '' @ to_string_nat (unat given)))
           else Returned ([q0, q1], spec_checksum c bh))"
    unfolding sizes sum using a
    by (auto simp add: get_blink_quorums_def blink_quorum_indices)
  show "handle_blink_quorums c cache tag bh given
        = Returned
           (if \<not> spec_sizes_in_range c bh then
              Handler_returned
                (if tag \<noteq> 0 then
                   [(''bl_nostart'', bl_nostart tag
                       ''Unable to retrieve blink quorum: not enough blink nodes to form a quorum'')]
                 else []) cache
            else if given \<noteq> spec_checksum c bh then
              Handler_returned
                (if tag \<noteq> 0 then
                   [(''bl_nostart'', bl_nostart tag
                       (''Unable to retrieve blink quorum: wrong quorum checksum: expected ''
                        @ to_string_nat (unat (spec_checksum c bh))
                        @ '', received '' @ to_string_nat (unat given)))]
                 else []) cache
            else Quorums_built [q0, q1] (spec_checksum c bh))"
    unfolding handle_blink_quorums_def g
    by (simp add: nostart_and_return_def)
qed

text \<open>
  At height 100 of the sample chain both subquorums have ten validators and the sum of
  the checksums is 30: the checksum 30 gives the quorums, the checksum 31 gives the
  \<open>bl_nostart\<close>.
\<close>

lemma get_blink_quorums_checks_example:
  "get_blink_quorums (sample_core sample_quorum_height sample_quorums 100) 100 (Some 30)
     = Returned ([\<lparr>validators = ten_validators\<rparr>, \<lparr>validators = ten_validators\<rparr>], 30)
   \<and> handle_blink_quorums (sample_core sample_quorum_height sample_quorums 100) (\<lambda>h. None) 7 100 31
     = Returned (Handler_returned
         [(''bl_nostart'', bl_nostart 7
            ''Unable to retrieve blink quorum: wrong quorum checksum: expected 30, received 31'')]
         (\<lambda>h. None))"
proof -
  let ?c = "sample_core sample_quorum_height sample_quorums 100"
  let ?q = "\<lparr>validators = ten_validators\<rparr>"
  have pre: "quorum_height ?c 100 0 \<noteq> 0 \<and> quorum_height ?c 100 1 \<noteq> 0
         \<and> get_quorum ?c blink (quorum_height ?c 100 0) = Some ?q
         \<and> get_quorum ?c blink (quorum_height ?c 100 1) = Some ?q"
    by (simp add: sample_core_def sample_quorum_height_def sample_quorums_def)
  have sizes: "spec_sizes_in_range ?c 100"
    by (simp add: spec_sizes_in_range_def spec_subquorum_def sample_core_def
          sample_quorum_height_def sample_quorums_def ten_validators_def blink_quorum_indices)
  have sum: "spec_checksum ?c 100 = 30"
    by (simp add: spec_checksum_def spec_subquorum_def sample_core_def
          sample_quorum_height_def sample_quorums_def ten_validators_def blink_quorum_indices)
  have s30: "to_string_nat 30 = ''30''" and s31: "to_string_nat 31 = ''31''"
    by simp_all
  have u30: "unat (30 :: u64) = 30" and u31: "unat (31 :: u64) = 31"
    by simp_all
  have ne: "(31 :: u64) \<noteq> 30" by simp
  note th = get_blink_quorums_checks [THEN conjunct2, THEN conjunct2, rule_format, OF pre]
  have a: "get_blink_quorums ?c 100 (Some 30) = Returned ([?q, ?q], 30)"
    using th [of 30, THEN conjunct1] sizes sum by simp
  have b: "handle_blink_quorums ?c (\<lambda>h. None) 7 100 31
     = Returned (Handler_returned
         [(''bl_nostart'', bl_nostart 7
            ''Unable to retrieve blink quorum: wrong quorum checksum: expected 30, received 31'')]
         (\<lambda>h. None))"
    using th [of 31 "\<lambda>h. None" 7, THEN conjunct2] sizes sum ne s30 s31 u30 u31 by simp
  show ?thesis using a b by simp
qed

text \<open>
  Whenever the quorum source has a quorum at every quorum height that is not zero (and a
  subquorum needs at least one vote), \<open>get_blink_quorums\<close> throws exactly when a size is
  out of range or the checksum differs, a subquorum that cannot be formed yet having no
  validators; and it returns the two subquorums otherwise.
\<close>

lemma get_blink_quorums_throws_iff:
  assumes votes: "0 < BLINK_MIN_VOTES c"
      and first: "quorum_height c bh 0 \<noteq> 0 \<Longrightarrow> get_quorum c blink (quorum_height c bh 0) \<noteq> None"
      and second: "quorum_height c bh 1 \<noteq> 0 \<Longrightarrow> get_quorum c blink (quorum_height c bh 1) \<noteq> None"
  shows "(\<exists>what. get_blink_quorums c bh (Some given) = Thrown (runtime_error what))
           \<longleftrightarrow> (\<not> spec_sizes_in_range c bh \<or> given \<noteq> spec_checksum c bh)"
    and "(\<exists>qs. get_blink_quorums c bh (Some given) = Returned (qs, given) \<and> length qs = 2)
           \<longleftrightarrow> (spec_sizes_in_range c bh \<and> given = spec_checksum c bh)"
proof -
  let ?early = "Thrown (runtime_error ''too early in blockchain to create a quorum'')"
  let ?few = "Thrown (runtime_error ''not enough blink nodes to form a quorum'')"
  have "((\<exists>what. get_blink_quorums c bh (Some given) = Thrown (runtime_error what))
           \<longleftrightarrow> (\<not> spec_sizes_in_range c bh \<or> given \<noteq> spec_checksum c bh))
      \<and> ((\<exists>qs. get_blink_quorums c bh (Some given) = Returned (qs, given) \<and> length qs = 2)
           \<longleftrightarrow> (spec_sizes_in_range c bh \<and> given = spec_checksum c bh))"
  proof (cases "quorum_height c bh 0 = 0")
    case True
    then have "get_blink_quorums c bh (Some given) = ?early"
      by (simp add: get_blink_quorums_def blink_quorum_indices)
    moreover from True votes have "\<not> spec_sizes_in_range c bh"
      by (simp add: spec_sizes_in_range_def spec_subquorum_def blink_quorum_indices)
    ultimately show ?thesis by simp
  next
    case h0: False
    with first obtain q0 where q0: "get_quorum c blink (quorum_height c bh 0) = Some q0"
      by blast
    show ?thesis
    proof (cases "BLINK_MIN_VOTES c \<le> length (validators q0)
                   \<and> length (validators q0) \<le> BLINK_SUBQUORUM_SIZE c")
      case False
      with h0 q0 have "get_blink_quorums c bh (Some given) = ?few"
        by (auto simp add: get_blink_quorums_def blink_quorum_indices)
      moreover from False h0 q0 have "\<not> spec_sizes_in_range c bh"
        by (auto simp add: spec_sizes_in_range_def spec_subquorum_def blink_quorum_indices)
      ultimately show ?thesis by simp
    next
      case size0: True
      show ?thesis
      proof (cases "quorum_height c bh 1 = 0")
        case True
        with h0 q0 size0 have "get_blink_quorums c bh (Some given) = ?early"
          by (auto simp add: get_blink_quorums_def blink_quorum_indices)
        moreover from True votes have "\<not> spec_sizes_in_range c bh"
          by (simp add: spec_sizes_in_range_def spec_subquorum_def blink_quorum_indices)
        ultimately show ?thesis by simp
      next
        case h1: False
        with second obtain q1 where q1: "get_quorum c blink (quorum_height c bh 1) = Some q1"
          by blast
        from h0 h1 q0 q1
        have "quorum_height c bh 0 \<noteq> 0 \<and> quorum_height c bh 1 \<noteq> 0
               \<and> get_quorum c blink (quorum_height c bh 0) = Some q0
               \<and> get_quorum c blink (quorum_height c bh 1) = Some q1"
          by simp
        from get_blink_quorums_checks [THEN conjunct2, THEN conjunct2, rule_format, OF this,
            THEN conjunct1, of given]
        show ?thesis by auto
      qed
    qed
  qed
  then show "(\<exists>what. get_blink_quorums c bh (Some given) = Thrown (runtime_error what))
           \<longleftrightarrow> (\<not> spec_sizes_in_range c bh \<or> given \<noteq> spec_checksum c bh)"
    and "(\<exists>qs. get_blink_quorums c bh (Some given) = Returned (qs, given) \<and> length qs = 2)
           \<longleftrightarrow> (spec_sizes_in_range c bh \<and> given = spec_checksum c bh)"
    by blast+
qed

text \<open>
  C6.  The claim: \<open>get_blink_quorums\<close> throws, and a blink with a non-zero tag is answered
  \<open>bl_nostart\<close>, exactly when some subquorum has fewer than \<open>BLINK_MIN_VOTES\<close> or more than
  \<open>BLINK_SUBQUORUM_SIZE\<close> validators or the checksum given differs from the sum computed;
  with sizes in range and a matching checksum it returns both subquorums.  It fails when
  the quorum source has no quorum for a subquorum.  At blink height 100 of a chain whose
  source has the first subquorum, of ten validators, and not the second, a size is out of
  range, the second subquorum having no validators; \<open>get_blink_quorums\<close> neither throws nor
  returns, and the blink with tag 7 is not answered: the handler reads
  \<open>result[qi]->validators\<close> through the null pointer.
\<close>

theorem handle_blink_no_reply_without_quorum:
  "\<not> spec_sizes_in_range (sample_core following_quorum_height (only_quorum_at 100) 100) 100
   \<and> get_blink_quorums (sample_core following_quorum_height (only_quorum_at 100) 100) 100 (Some 30)
       = Null_dereference
   \<and> handle_blink (sample_core following_quorum_height (only_quorum_at 100) 100) (\<lambda>h. None)
       \<lparr>data = [BT_dict [(''!'', BT_int 7), (''#'', BT_string sample_hash), (''h'', BT_int 100),
                         (''q'', BT_int 30), (''t'', BT_string ''tx'')]],
        pubkey = ''client'', sn = False\<rparr>
       = Null_dereference"
proof -
  let ?c = "sample_core following_quorum_height (only_quorum_at 100) 100"
  have sizes: "\<not> spec_sizes_in_range ?c 100"
    by (simp add: spec_sizes_in_range_def spec_subquorum_def sample_core_def
          following_quorum_height_def only_quorum_at_def blink_quorum_indices)
  have quorums: "get_blink_quorums ?c 100 (Some 30) = Null_dereference"
    by (simp add: get_blink_quorums_def sample_core_def following_quorum_height_def
          only_quorum_at_def ten_validators_def blink_quorum_indices)
  have step: "handle_blink_quorums ?c (\<lambda>h. None) 7 100 30 = Null_dereference"
    by (simp add: handle_blink_quorums_def quorums)
  have near: "\<not> (100 :: u64) < 100 - 2" "\<not> (100 :: u64) > 100 + 2"
    by simp_all
  have chain: "get_current_blockchain_height ?c = 100"
    by (simp add: sample_core_def)
  have "handle_blink ?c (\<lambda>h. None)
       \<lparr>data = [BT_dict [(''!'', BT_int 7), (''#'', BT_string sample_hash), (''h'', BT_int 100),
                         (''q'', BT_int 30), (''t'', BT_string ''tx'')]],
        pubkey = ''client'', sn = False\<rparr>
       = Null_dereference"
    using near
    by (simp add: handle_blink_def chain get_or_def dict_at_def already_seen_def
          sample_hash_def step)
  with sizes quorums show ?thesis by blast
qed

section \<open>The topology engine\<close>

lemma add_peer_remotes [simp]: "remotes (snd (add_peer pk strong pi)) = remotes pi"
  by (simp add: add_peer_def Let_def split: option.splits prod.splits)

lemma add_peer_my_position [simp]: "my_position (snd (add_peer pk strong pi)) = my_position pi"
  by (simp add: add_peer_def Let_def split: option.splits prod.splits)

lemma add_peer_keeps_strong:
  "peers pi x = Some a \<Longrightarrow> a \<noteq> '''' \<Longrightarrow> peers (snd (add_peer pk strong pi)) x = Some a"
  by (auto simp add: add_peer_def Let_def split: option.splits prod.splits)

lemma add_peer_strong:
  assumes "remotes pi pk = Some (x, addr)" and "addr \<noteq> ''''"
  shows "\<exists>a. peers (snd (add_peer pk True pi)) x = Some a \<and> a \<noteq> ''''"
  using assms by (cases "peers pi x") (auto simp add: add_peer_def Let_def)

lemma add_peer_other_key:
  "peers pi x = None \<Longrightarrow> \<forall>a. remotes pi pk \<noteq> Some (x, a)
    \<Longrightarrow> peers (snd (add_peer pk strong pi)) x = None"
  by (auto simp add: add_peer_def Let_def split: option.splits prod.splits)

lemma add_peer_at_Some:
  "add_peer_at v j strong pi = Some pi' \<Longrightarrow>
     0 \<le> j \<and> j < int (length v) \<and> pi' = snd (add_peer (v ! nat j) strong pi)"
  by (auto simp add: add_peer_at_def split: if_splits)

lemma add_peer_at_preserves:
  assumes "add_peer_at v j strong pi = Some pi'" and "I pi"
      and step: "\<And>pk s p. pk \<in> set v \<Longrightarrow> I p \<Longrightarrow> I (snd (add_peer pk s p))"
  shows "I pi'"
proof -
  from add_peer_at_Some [OF assms(1)]
  have j: "0 \<le> j" "j < int (length v)" and eq: "pi' = snd (add_peer (v ! nat j) strong pi)"
    by simp_all
  from j have "v ! nat j \<in> set v" by simp
  with assms(2) step eq show ?thesis by simp
qed

lemma add_peers_at_preserves:
  assumes "add_peers_at v js strong pi = Some pi'" and "I pi"
      and step: "\<And>pk s p. pk \<in> set v \<Longrightarrow> I p \<Longrightarrow> I (snd (add_peer pk s p))"
  shows "I pi'"
  using assms(1,2)
proof (induction js arbitrary: pi)
  case Nil
  then show ?case by simp
next
  case (Cons j js)
  from Cons.prems(1) obtain pi1 where a: "add_peer_at v j strong pi = Some pi1"
    and b: "add_peers_at v js strong pi1 = Some pi'"
    by (auto simp add: bind_eq_Some_conv)
  have "I pi1" using add_peer_at_preserves [where I = I, OF a Cons.prems(2)] step by blast
  with Cons.IH b show ?case by blast
qed

lemma add_peer_traced_Some:
  "add_peer_traced trace v j logged k pi = Some pi' \<Longrightarrow> add_peer_at v j True pi = Some pi'"
  by (auto simp add: add_peer_traced_def add_peer_at_def split: if_splits prod.splits)

lemma add_peer_traced_quiet:
  "add_peer_traced False v j logged k pi = add_peer_at v j True pi"
  by (simp add: add_peer_traced_def add_peer_at_def split: prod.splits)

lemma add_peer_traced_inside:
  "0 \<le> k \<Longrightarrow> k < int (length logged)
    \<Longrightarrow> add_peer_traced trace v j logged k pi = add_peer_at v j True pi"
  by (simp add: add_peer_traced_def add_peer_at_def split: prod.splits)

lemma bridge_to_next_preserves:
  assumes "bridge_to_next trace quorums i pi = Some pi'" and "I pi"
      and step: "\<And>pk s p. I p \<Longrightarrow> I (snd (add_peer pk s p))"
  shows "I pi'"
proof (cases "\<exists>v j. add_peer_at v j True pi = Some pi'")
  case True
  then obtain v j where "add_peer_at v j True pi = Some pi'" by blast
  from add_peer_at_preserves [where I = I, OF this assms(2)] step show ?thesis by blast
next
  case False
  with assms(1) have "pi' = pi"
    by (auto simp add: bridge_to_next_def Let_def split: if_splits dest: add_peer_traced_Some)
  with assms(2) show ?thesis by simp
qed

lemma bridge_to_previous_preserves:
  assumes "bridge_to_previous trace quorums i pi = Some pi'" and "I pi"
      and step: "\<And>pk s p. I p \<Longrightarrow> I (snd (add_peer pk s p))"
  shows "I pi'"
proof (cases "\<exists>v j. add_peer_at v j True pi = Some pi'")
  case True
  then obtain v j where "add_peer_at v j True pi = Some pi'" by blast
  from add_peer_at_preserves [where I = I, OF this assms(2)] step show ?thesis by blast
next
  case False
  with assms(1) have "pi' = pi"
    by (auto simp add: bridge_to_previous_def Let_def split: if_splits dest: add_peer_traced_Some)
  with assms(2) show ?thesis by simp
qed

lemma compute_peers_round_preserves:
  assumes "compute_peers_round trace outgoing incoming quorums i pi = Some pi'" and "I pi"
      and step: "\<And>pk s p. I p \<Longrightarrow> I (snd (add_peer pk s p))"
  shows "I pi'"
proof (cases "my_position pi ! i < 0")
  case True
  with assms(1,2) show ?thesis by (simp add: compute_peers_round_def)
next
  case False
  with assms(1) obtain pi1 pi2 pi3 where
    a: "add_peers_at (validators (quorums ! i))
          (outgoing (my_position pi ! i) (length (validators (quorums ! i)))) True pi = Some pi1"
    and b: "add_peers_at (validators (quorums ! i))
          (incoming (my_position pi ! i) (length (validators (quorums ! i)))) False pi1 = Some pi2"
    and c: "bridge_to_next trace quorums i pi2 = Some pi3"
    and d: "bridge_to_previous trace quorums i pi3 = Some pi'"
    by (auto simp add: compute_peers_round_def Let_def bind_eq_Some_conv)
  have "I pi1" using add_peers_at_preserves [where I = I, OF a assms(2)] step by blast
  then have "I pi2" using add_peers_at_preserves [where I = I, OF b] step by blast
  then have "I pi3" using bridge_to_next_preserves [where I = I, OF c] step by blast
  then show ?thesis using bridge_to_previous_preserves [where I = I, OF d] step by blast
qed

lemma compute_peers_rounds_preserves:
  assumes "compute_peers_rounds trace outgoing incoming quorums is pi = Some pi'" and "I pi"
      and step: "\<And>pk s p. I p \<Longrightarrow> I (snd (add_peer pk s p))"
  shows "I pi'"
  using assms(1,2)
proof (induction "is" arbitrary: pi)
  case Nil
  then show ?case by simp
next
  case (Cons i "is")
  from Cons.prems(1) obtain pi1 where
    a: "compute_peers_round trace outgoing incoming quorums i pi = Some pi1"
    and b: "compute_peers_rounds trace outgoing incoming quorums is pi1 = Some pi'"
    by (auto simp add: bind_eq_Some_conv)
  have "I pi1" using compute_peers_round_preserves [where I = I, OF a Cons.prems(2)] step by blast
  with Cons.IH b show ?case by blast
qed

lemma compute_peers_rounds_append:
  "compute_peers_rounds trace outgoing incoming quorums (xs @ ys) pi =
     Option.bind (compute_peers_rounds trace outgoing incoming quorums xs pi)
       (compute_peers_rounds trace outgoing incoming quorums ys)"
proof (induction xs arbitrary: pi)
  case Nil
  show ?case by simp
next
  case (Cons i xs)
  show ?case
    by (cases "compute_peers_round trace outgoing incoming quorums i pi") (simp_all add: Cons.IH)
qed


text \<open>
  \<open>compute_peers\<close> returns whenever the connection matrix gives positions inside the
  quorum and trace logging is off.
\<close>

lemma add_peers_at_returns:
  assumes "\<forall>j \<in> set js. 0 \<le> j \<and> j < int (length v)"
  shows "\<exists>pi'. add_peers_at v js strong pi = Some pi'"
  using assms by (induction js arbitrary: pi) (auto simp add: add_peer_at_def)

text \<open>
  The bridge to the next quorum reads inside both lists, whether or not it logs; the
  bridge to the previous quorum reads its target inside the list.
\<close>

lemma bridge_to_next_returns: "\<exists>pi'. bridge_to_next trace quorums i pi = Some pi'"
proof -
  let ?v = "validators (quorums ! i)"
  let ?n = "validators (quorums ! Suc i)"
  let ?half = "int (min (length ?v) (length ?n)) div 2"
  let ?p = "my_position pi ! i"
  show ?thesis
  proof (cases "Suc i < length quorums \<and> my_position pi ! Suc i < 0
                 \<and> ?half \<le> ?p \<and> ?p < ?half * 2")
    case False
    then show ?thesis by (auto simp add: bridge_to_next_def Let_def)
  next
    case True
    have "?half * 2 \<le> int (length ?v)" and "?half * 2 \<le> int (length ?n)" by simp_all
    with True have j: "0 \<le> ?p - ?half" "?p - ?half < int (length ?v)"
      and k: "?p - ?half < int (length ?n)"
      by linarith+
    have "add_peer_traced trace ?v (?p - ?half) ?n (?p - ?half) pi
        = add_peer_at ?v (?p - ?half) True pi"
      using j(1) k by (rule add_peer_traced_inside)
    also have "\<dots> = Some (snd (add_peer (?v ! nat (?p - ?half)) True pi))"
      using j by (simp add: add_peer_at_def)
    finally show ?thesis using True by (simp add: bridge_to_next_def Let_def)
  qed
qed

lemma bridge_to_previous_returns:
  assumes "0 \<le> my_position pi ! i"
  shows "\<exists>pi'. bridge_to_previous False quorums i pi = Some pi'"
proof -
  let ?p = "validators (quorums ! (i - 1))"
  let ?half = "int (min (length (validators (quorums ! i))) (length ?p)) div 2"
  have "2 * ?half \<le> int (length ?p)" by simp
  with assms show ?thesis
    by (auto simp add: bridge_to_previous_def add_peer_traced_quiet add_peer_at_def Let_def)
qed

text \<open>
  With trace logging on, a bridge to the previous quorum that adds its peer then reads
  \<open>prev_validators\<close> at \<open>my_position[i] - half\<close>, which is negative in that branch.
\<close>

lemma add_peer_traced_outside:
  assumes "0 \<le> j" and "j < int (length v)" and "fst (add_peer (v ! nat j) True pi)"
      and "k < 0"
  shows "add_peer_traced True v j logged k pi = None"
  using assms by (cases "add_peer (v ! nat j) True pi") (simp add: add_peer_traced_def)

lemma bridge_to_previous_logs_outside:
  assumes first: "i \<noteq> 0" and absent: "my_position pi ! (i - 1) < 0"
      and half: "half = int (min (length (validators (quorums ! i)))
                                (length (validators (quorums ! (i - 1))))) div 2"
      and pos: "0 \<le> my_position pi ! i" "my_position pi ! i < half"
      and added: "fst (add_peer (validators (quorums ! (i - 1)) ! nat (half + my_position pi ! i))
                    True pi)"
  shows "bridge_to_previous True quorums i pi = None"
proof -
  let ?p = "validators (quorums ! (i - 1))"
  have "2 * half \<le> int (length ?p)" unfolding half by simp
  with pos have j: "0 \<le> half + my_position pi ! i" "half + my_position pi ! i < int (length ?p)"
    and k: "my_position pi ! i - half < 0"
    by linarith+
  have "bridge_to_previous True quorums i pi
      = add_peer_traced True ?p (half + my_position pi ! i) ?p (my_position pi ! i - half) pi"
    using first absent pos(2) unfolding half by (simp add: bridge_to_previous_def Let_def)
  also have "\<dots> = None" using j added k by (rule add_peer_traced_outside)
  finally show ?thesis .
qed

lemma compute_peers_round_returns:
  assumes out: "\<forall>position n. \<forall>j \<in> set (outgoing position n). 0 \<le> j \<and> j < int n"
      and inc: "\<forall>position n. \<forall>j \<in> set (incoming position n). 0 \<le> j \<and> j < int n"
  shows "\<exists>pi'. compute_peers_round False outgoing incoming quorums i pi = Some pi'"
proof (cases "my_position pi ! i < 0")
  case True
  then show ?thesis by (simp add: compute_peers_round_def)
next
  case False
  let ?v = "validators (quorums ! i)"
  let ?same = "\<lambda>s. my_position s = my_position pi"
  have step: "\<And>pk s t. ?same t \<Longrightarrow> ?same (snd (add_peer pk s t))" by simp
  from add_peers_at_returns [of "outgoing (my_position pi ! i) (length ?v)" ?v True pi] out
  obtain s1 where a: "add_peers_at ?v (outgoing (my_position pi ! i) (length ?v)) True pi = Some s1"
    by blast
  from add_peers_at_returns [of "incoming (my_position pi ! i) (length ?v)" ?v False s1] inc
  obtain s2 where b: "add_peers_at ?v (incoming (my_position pi ! i) (length ?v)) False s1 = Some s2"
    by blast
  from bridge_to_next_returns obtain s3 where c: "bridge_to_next False quorums i s2 = Some s3"
    by blast
  have "?same s1" using add_peers_at_preserves [where I = ?same, OF a] step by blast
  then have "?same s2" using add_peers_at_preserves [where I = ?same, OF b] step by blast
  then have "?same s3" using bridge_to_next_preserves [where I = ?same, OF c] step by blast
  with False have "0 \<le> my_position s3 ! i" by simp
  from bridge_to_previous_returns [OF this]
  obtain s4 where d: "bridge_to_previous False quorums i s3 = Some s4" by blast
  from False a b c d show ?thesis by (simp add: compute_peers_round_def)
qed

lemma compute_peers_returns:
  assumes out: "\<forall>position n. \<forall>j \<in> set (outgoing position n). 0 \<le> j \<and> j < int n"
      and inc: "\<forall>position n. \<forall>j \<in> set (incoming position n). 0 \<le> j \<and> j < int n"
  shows "\<exists>pi'. compute_peers False outgoing incoming quorums opportunistic pi = Some pi'"
proof -
  have "\<exists>pi'. compute_peers_rounds False outgoing incoming quorums rounds s = Some pi'" for rounds s
  proof (induction rounds arbitrary: s)
    case Nil
    show ?case by simp
  next
    case (Cons i rounds)
    from compute_peers_round_returns [OF out inc]
    obtain s1 where "compute_peers_round False outgoing incoming quorums i s = Some s1" by blast
    with Cons.IH [of s1] show ?case by simp
  qed
  then show ?thesis by (simp add: compute_peers_def)
qed

text \<open>
  C2.  The claim: a node at position \<open>p\<close> of \<open>Qi\<close> that is not in \<open>Qi+1\<close>, with
  \<open>h \<le> p < 2h\<close>, gets a strong peer edge to the validator at position \<open>p - h\<close> of \<open>Qi+1\<close>.
  The code tests the position and then calls \<open>add_peer(validators[my_position[i] - half])\<close>,
  with the list of the node's own quorum.  With \<open>Q = [a, e, c, d]\<close> and \<open>Q' = [e, f, g, h]\<close>
  the node \<open>c\<close> is at position 2 of \<open>Q\<close> and not in \<open>Q'\<close>, and \<open>h = 2\<close>: the edge claimed goes
  to \<open>e\<close>, position 0 of \<open>Q'\<close>.  The node \<open>e\<close> is among the remotes, being the incoming
  connection of \<open>c\<close> in \<open>Q\<close>, but it stays a weak peer: the one strong peer is \<open>d\<close>.
\<close>

theorem new_peer_info_no_edge_to_next_quorum:
  "map_option
     (\<lambda>pi. (my_position pi, remotes pi ''e'', peers pi ''xe'', peers pi ''xd'', peers pi ''xa'',
            strong_peers pi))
     (new_peer_info trace ring_outgoing ring_incoming sample_directory ''c''
        [\<lparr>validators = [''a'', ''e'', ''c'', ''d'']\<rparr>, \<lparr>validators = [''e'', ''f'', ''g'', ''h'']\<rparr>]
        True [])
   = Some ([2, - 1], Some (''xe'', ''tcp://e''), Some '''', Some ''tcp://d'', None, 1)"
  by (simp add: new_peer_info_def peer_info_init_def find_my_positions_def compute_peers_def
        compute_peers_round_def add_peer_at_def bridge_to_next_def bridge_to_previous_def
        add_peer_traced_def add_peer_def sample_directory_def ring_outgoing_def ring_incoming_def upt_rec Let_def)

text \<open>
  Whatever the connections inside a quorum are: with two quorums, a node that is not in
  the second one never gets a peer whose x25519 key belongs to no member of the first.
\<close>

lemma compute_peers_stays_in_own_quorum:
  assumes run: "compute_peers trace outgoing incoming [q, q'] opportunistic pi = Some pi'"
      and pos: "my_position pi = [p, - 1]"
      and empty: "peers pi x = None"
      and own: "\<forall>pk \<in> set (validators q). \<forall>a. remotes pi pk \<noteq> Some (x, a)"
  shows "peers pi' x = None"
proof -
  let ?I = "\<lambda>s. remotes s = remotes pi \<and> my_position s = my_position pi \<and> peers s x = None"
  let ?pi0 = "pi\<lparr>strong_peers := 0\<rparr>"
  have step: "\<And>pk s t. pk \<in> set (validators q) \<Longrightarrow> ?I t \<Longrightarrow> ?I (snd (add_peer pk s t))"
    using own by (simp add: add_peer_other_key)
  have I0: "?I ?pi0" using empty by simp
  from run obtain pi1 where r0: "compute_peers_round trace outgoing incoming [q, q'] 0 ?pi0 = Some pi1"
    and r1: "compute_peers_round trace outgoing incoming [q, q'] 1 pi1 = Some pi'"
    by (auto simp add: compute_peers_def upt_rec bind_eq_Some_conv)
  have I1: "?I pi1"
  proof (cases "p < 0")
    case True
    with r0 pos I0 show ?thesis by (simp add: compute_peers_round_def)
  next
    case False
    with r0 pos obtain s1 s2 s3 where
      a: "add_peers_at (validators q) (outgoing p (length (validators q))) True ?pi0 = Some s1"
      and b: "add_peers_at (validators q) (incoming p (length (validators q))) False s1 = Some s2"
      and c: "bridge_to_next trace [q, q'] 0 s2 = Some s3"
      and d: "bridge_to_previous trace [q, q'] 0 s3 = Some pi1"
      by (auto simp add: compute_peers_round_def Let_def bind_eq_Some_conv)
    have "?I s1" using add_peers_at_preserves [where I = ?I, OF a I0] step by blast
    then have s2: "?I s2" using add_peers_at_preserves [where I = ?I, OF b] step by blast
    have s3: "?I s3"
    proof (cases "add_peer_at (validators q) (p - int (min (length (validators q)) (length (validators q'))) div 2) True s2 = Some s3")
      case True
      from add_peer_at_preserves [where I = ?I, OF True s2] step show ?thesis by blast
    next
      case False
      with c s2 pos have "s3 = s2"
        by (auto simp add: bridge_to_next_def Let_def split: if_splits dest: add_peer_traced_Some)
      with s2 show ?thesis by simp
    qed
    from d have "pi1 = s3" by (simp add: bridge_to_previous_def)
    with s3 show ?thesis by simp
  qed
  then have "my_position pi1 ! 1 < 0" using pos by simp
  with r1 have "pi' = pi1" by (simp add: compute_peers_round_def)
  with I1 show ?thesis by simp
qed

text \<open>
  The peers of \<open>compute_peers\<close> are among the remotes that the constructor looked up: an
  x25519 key of no remote is the key of no peer.
\<close>

lemma compute_peers_only_remotes:
  assumes run: "compute_peers trace outgoing incoming quorums opportunistic pi = Some pi'"
      and empty: "peers pi x = None"
      and unknown: "\<forall>pk a. remotes pi pk \<noteq> Some (x, a)"
  shows "peers pi' x = None"
proof -
  let ?I = "\<lambda>s. remotes s = remotes pi \<and> peers s x = None"
  have step: "\<And>pk s t. ?I t \<Longrightarrow> ?I (snd (add_peer pk s t))"
    using unknown by (simp add: add_peer_other_key)
  have "?I (pi\<lparr>strong_peers := 0\<rparr>)" using empty by simp
  from compute_peers_rounds_preserves [where I = ?I, OF run [unfolded compute_peers_def] this] step
  show ?thesis by blast
qed

text \<open>
  When the validator at position \<open>h + p\<close> of the previous quorum is among the remotes, under
  the x25519 key \<open>x\<close>, and remotes have non-empty connection strings, a run of
  \<open>compute_peers\<close> that returns leaves \<open>x\<close> as a strong peer: \<open>peers\<close> maps it to a non-empty
  connection string.
\<close>

lemma compute_peers_previous_bridge_strong:
  assumes run: "compute_peers trace outgoing incoming quorums opportunistic pi = Some pi'"
      and i: "Suc i < length quorums"
      and absent: "my_position pi ! i < 0"
      and p: "my_position pi ! Suc i = p" "0 \<le> p"
      and h: "h = int (min (length (validators (quorums ! Suc i)))
                           (length (validators (quorums ! i)))) div 2"
      and half: "p < h"
      and target: "remotes pi (validators (quorums ! i) ! nat (h + p)) = Some (x, addr)"
      and addrs: "\<forall>pk y a. remotes pi pk = Some (y, a) \<longrightarrow> a \<noteq> ''''"
  shows "\<exists>a. peers pi' x = Some a \<and> a \<noteq> ''''"
proof -
  let ?k = "Suc i"
  let ?pi0 = "pi\<lparr>strong_peers := 0\<rparr>"
  let ?same = "\<lambda>s. remotes s = remotes pi \<and> my_position s = my_position pi"
  let ?strong = "\<lambda>s. \<exists>a. peers s x = Some a \<and> a \<noteq> ''''"
  have same_step: "\<And>pk s t. ?same t \<Longrightarrow> ?same (snd (add_peer pk s t))" by simp
  have strong_step: "\<And>pk s t. ?strong t \<Longrightarrow> ?strong (snd (add_peer pk s t))"
    using add_peer_keeps_strong by blast
  have "[0..<?k + (length quorums - ?k)] = [0..<?k] @ [?k..<?k + (length quorums - ?k)]"
    by (rule upt_add_eq_append) simp
  moreover have "?k + (length quorums - ?k) = length quorums" using i by arith
  ultimately have "[0..<length quorums] = [0..<?k] @ [?k..<length quorums]"
    by (simp only:)
  moreover have "[?k..<length quorums] = ?k # [Suc ?k..<length quorums]"
    using i by (simp add: upt_conv_Cons)
  ultimately have split: "[0..<length quorums] = [0..<?k] @ ?k # [Suc ?k..<length quorums]"
    by simp
  from run obtain s1 s2 where
    before: "compute_peers_rounds trace outgoing incoming quorums [0..<?k] ?pi0 = Some s1"
    and round: "compute_peers_round trace outgoing incoming quorums ?k s1 = Some s2"
    and after: "compute_peers_rounds trace outgoing incoming quorums [Suc ?k..<length quorums] s2 = Some pi'"
    unfolding compute_peers_def split compute_peers_rounds_append
    by (auto simp add: bind_eq_Some_conv)
  have s1: "?same s1"
    using compute_peers_rounds_preserves [where I = ?same, OF before] same_step by simp
  then have pos: "my_position s1 ! ?k = p" and prev: "my_position s1 ! (?k - 1) < 0"
    using p absent by simp_all
  from round pos p(2) obtain t1 t2 t3 where
    a: "add_peers_at (validators (quorums ! ?k))
          (outgoing p (length (validators (quorums ! ?k)))) True s1 = Some t1"
    and b: "add_peers_at (validators (quorums ! ?k))
          (incoming p (length (validators (quorums ! ?k)))) False t1 = Some t2"
    and c: "bridge_to_next trace quorums ?k t2 = Some t3"
    and d: "bridge_to_previous trace quorums ?k t3 = Some s2"
    by (auto simp add: compute_peers_round_def Let_def bind_eq_Some_conv)
  have "?same t1" using add_peers_at_preserves [where I = ?same, OF a s1] same_step by blast
  then have "?same t2" using add_peers_at_preserves [where I = ?same, OF b] same_step by blast
  then have t3: "?same t3" using bridge_to_next_preserves [where I = ?same, OF c] same_step by blast
  then have "add_peer_traced trace (validators (quorums ! i)) (h + p)
               (validators (quorums ! i)) (p - h) t3 = Some s2"
    using d p absent h half by (simp add: bridge_to_previous_def Let_def)
  then have "add_peer_at (validators (quorums ! i)) (h + p) True t3 = Some s2"
    by (rule add_peer_traced_Some)
  then have "s2 = snd (add_peer (validators (quorums ! i) ! nat (h + p)) True t3)"
    using add_peer_at_Some by blast
  moreover have "remotes t3 (validators (quorums ! i) ! nat (h + p)) = Some (x, addr)"
    using t3 target by simp
  moreover have "addr \<noteq> ''''" using addrs target by blast
  ultimately have "?strong s2" using add_peer_strong by blast
  then show ?thesis
    using compute_peers_rounds_preserves [where I = ?strong, OF after] strong_step by blast
qed

text \<open>
  The node \<open>e\<close> of \<open>Q' = [e, f, g, c]\<close>, with \<open>Q = [a, b, c, d]\<close>, as its constructor leaves it
  before \<open>compute_peers\<close>: the bridge from \<open>Q'\<close> back to \<open>Q\<close> makes \<open>c\<close> a strong peer.
\<close>

lemma compute_peers_previous_bridge_strong_example:
  "\<exists>pi pi'.
     peer_info_init ring_outgoing ring_incoming sample_directory ''e''
       [\<lparr>validators = [''a'', ''b'', ''c'', ''d'']\<rparr>, \<lparr>validators = [''e'', ''f'', ''g'', ''c'']\<rparr>]
       True [] = Some pi
     \<and> compute_peers False ring_outgoing ring_incoming
         [\<lparr>validators = [''a'', ''b'', ''c'', ''d'']\<rparr>, \<lparr>validators = [''e'', ''f'', ''g'', ''c'']\<rparr>]
         True pi = Some pi'
     \<and> (\<exists>a. peers pi' ''xc'' = Some a \<and> a \<noteq> '''')"
proof -
  let ?qs = "[\<lparr>validators = [''a'', ''b'', ''c'', ''d'']\<rparr>, \<lparr>validators = [''e'', ''f'', ''g'', ''c'']\<rparr>]"
  let ?pi = "\<lparr>remotes = (\<lambda>pk. if pk \<in> set [''f'', ''c''] then sample_directory pk else None),
             peers = (\<lambda>x. None), strong_peers = 0, my_position = [- 1, 0],
             my_position_count = 1\<rparr>"
  have init: "peer_info_init ring_outgoing ring_incoming sample_directory ''e'' ?qs True []
      = Some ?pi"
    by (simp add: peer_info_init_def find_my_positions_def ring_outgoing_def ring_incoming_def)
  have "\<forall>position n. \<forall>j \<in> set (ring_outgoing position n). 0 \<le> j \<and> j < int n"
    and "\<forall>position n. \<forall>j \<in> set (ring_incoming position n). 0 \<le> j \<and> j < int n"
    by (simp_all add: ring_outgoing_def ring_incoming_def)
  from compute_peers_returns [OF this]
  obtain pi' where run: "compute_peers False ring_outgoing ring_incoming ?qs True ?pi = Some pi'"
    by blast
  have "\<exists>a. peers pi' ''xc'' = Some a \<and> a \<noteq> ''''"
  proof (rule compute_peers_previous_bridge_strong [OF run, where i = 0 and p = 0 and h = 2
          and addr = "''tcp://c''"])
    show "Suc 0 < length ?qs" by simp
    show "my_position ?pi ! 0 < 0" by simp
    show "my_position ?pi ! Suc 0 = 0" by simp
    show "(0 :: int) \<le> 0" by simp
    show "(2 :: int) = int (min (length (validators (?qs ! Suc 0)))
                              (length (validators (?qs ! 0)))) div 2"
      by simp
    show "(0 :: int) < 2" by simp
    show "remotes ?pi (validators (?qs ! 0) ! nat (2 + 0)) = Some (''xc'', ''tcp://c'')"
      by (simp add: sample_directory_def)
    show "\<forall>pk y a. remotes ?pi pk = Some (y, a) \<longrightarrow> a \<noteq> ''''"
      by (simp add: sample_directory_def)
  qed
  with init run show ?thesis by blast
qed

text \<open>
  C4.  The claim: a node at position \<open>p < h\<close> of \<open>Qi+1\<close> that is not in \<open>Qi\<close> gets the
  validator at position \<open>h + p\<close> of \<open>Qi\<close> as a weak peer, one that is sent to only over a
  connection that is already open.  The constructor looks up only the connections inside
  each quorum, and the bridge calls \<open>add_peer\<close> with its default \<open>strong = true\<close>.  With
  \<open>Q = [a, b, c, d]\<close> and \<open>Q' = [e, f, g, h]\<close> the node \<open>e\<close> is at position 0 of \<open>Q'\<close> and not in
  \<open>Q\<close>, and \<open>h = 2\<close>: the validator at position 2 of \<open>Q\<close> is \<open>c\<close>, which every directory knows
  and the constructor has not looked up, so \<open>e\<close> gets no peer \<open>c\<close> at all, weak or strong;
  its one strong peer is \<open>f\<close>.  With \<open>Q' = [e, f, g, c]\<close> the node \<open>c\<close> has been looked up, as
  the incoming connection of \<open>e\<close> inside \<open>Q'\<close>, and the bridge makes it a strong peer, with
  its connection string; and when trace logging is on, the constructor then reads
  \<open>prev_validators\<close> at position \<open>0 - 2\<close>.
\<close>

theorem new_peer_info_previous_bridge_not_weak:
  "map_option
     (\<lambda>pi. (my_position pi, remotes pi ''c'', peers pi ''xc'', peers pi ''xf'', peers pi ''xh'',
            strong_peers pi))
     (new_peer_info trace ring_outgoing ring_incoming sample_directory ''e''
        [\<lparr>validators = [''a'', ''b'', ''c'', ''d'']\<rparr>, \<lparr>validators = [''e'', ''f'', ''g'', ''h'']\<rparr>]
        True [])
   = Some ([- 1, 0], None, None, Some ''tcp://f'', Some '''', 1)
   \<and>
   map_option
     (\<lambda>pi. (my_position pi, remotes pi ''c'', peers pi ''xc'', peers pi ''xf'', strong_peers pi))
     (new_peer_info False ring_outgoing ring_incoming sample_directory ''e''
        [\<lparr>validators = [''a'', ''b'', ''c'', ''d'']\<rparr>, \<lparr>validators = [''e'', ''f'', ''g'', ''c'']\<rparr>]
        True [])
   = Some ([- 1, 0], Some (''xc'', ''tcp://c''), Some ''tcp://c'', Some ''tcp://f'', 2)
   \<and>
   new_peer_info True ring_outgoing ring_incoming sample_directory ''e''
     [\<lparr>validators = [''a'', ''b'', ''c'', ''d'']\<rparr>, \<lparr>validators = [''e'', ''f'', ''g'', ''c'']\<rparr>]
     True []
   = None"
proof (intro conjI)
  show "map_option
     (\<lambda>pi. (my_position pi, remotes pi ''c'', peers pi ''xc'', peers pi ''xf'', peers pi ''xh'',
            strong_peers pi))
     (new_peer_info trace ring_outgoing ring_incoming sample_directory ''e''
        [\<lparr>validators = [''a'', ''b'', ''c'', ''d'']\<rparr>, \<lparr>validators = [''e'', ''f'', ''g'', ''h'']\<rparr>]
        True [])
   = Some ([- 1, 0], None, None, Some ''tcp://f'', Some '''', 1)"
    by (simp add: new_peer_info_def peer_info_init_def find_my_positions_def compute_peers_def
          compute_peers_round_def add_peer_at_def bridge_to_next_def bridge_to_previous_def
          add_peer_traced_def add_peer_def sample_directory_def ring_outgoing_def
          ring_incoming_def upt_rec Let_def)
  show "map_option
     (\<lambda>pi. (my_position pi, remotes pi ''c'', peers pi ''xc'', peers pi ''xf'', strong_peers pi))
     (new_peer_info False ring_outgoing ring_incoming sample_directory ''e''
        [\<lparr>validators = [''a'', ''b'', ''c'', ''d'']\<rparr>, \<lparr>validators = [''e'', ''f'', ''g'', ''c'']\<rparr>]
        True [])
   = Some ([- 1, 0], Some (''xc'', ''tcp://c''), Some ''tcp://c'', Some ''tcp://f'', 2)"
    by (simp add: new_peer_info_def peer_info_init_def find_my_positions_def compute_peers_def
          compute_peers_round_def add_peer_at_def bridge_to_next_def bridge_to_previous_def
          add_peer_traced_def add_peer_def sample_directory_def ring_outgoing_def
          ring_incoming_def upt_rec Let_def)
  show "new_peer_info True ring_outgoing ring_incoming sample_directory ''e''
     [\<lparr>validators = [''a'', ''b'', ''c'', ''d'']\<rparr>, \<lparr>validators = [''e'', ''f'', ''g'', ''c'']\<rparr>]
     True []
   = None"
    by (simp add: new_peer_info_def peer_info_init_def find_my_positions_def compute_peers_def
          compute_peers_round_def add_peer_at_def bridge_to_next_def bridge_to_previous_def
          add_peer_traced_def add_peer_def sample_directory_def ring_outgoing_def
          ring_incoming_def upt_rec Let_def)
qed

section \<open>Verdicts of a blink transaction\<close>

lemma count_status_le_length:
  "count_status sig_approved row + count_status sig_rejected row \<le> length row"
  unfolding count_status_def by (induction row) auto

text \<open>A blink transaction is never approved and rejected at once.\<close>

lemma approved_not_rejected: "approved m btx \<Longrightarrow> \<not> rejected_tx m btx"
proof
  assume a: "approved m btx" and r: "rejected_tx m btx"
  from r obtain row where row: "row \<in> set (signature_slots btx)"
    and many: "int (count_status sig_rejected row) > int (length row) - int m"
    by (auto simp add: rejected_tx_def list_ex_iff)
  from a row have "m \<le> count_status sig_approved row"
    by (auto simp add: approved_def list_all_iff)
  with many count_status_le_length [of row] show False by linarith
qed

lemma count_status_update:
  assumes "i < length row" and "fst (row ! i) \<noteq> st"
  shows "count_status st row \<le> count_status st (row[i := slot])"
  using assms unfolding count_status_def
proof (induction row arbitrary: i)
  case Nil
  then show ?case by simp
next
  case (Cons x xs)
  show ?case
  proof (cases i)
    case 0
    with Cons.prems show ?thesis by simp
  next
    case (Suc j)
    with Cons.prems Cons.IH [of j] show ?thesis by simp
  qed
qed

lemma add_prechecked_signature_refused:
  "\<not> fst (add_prechecked_signature btx q position approval sig)
    \<Longrightarrow> snd (add_prechecked_signature btx q position approval sig) = btx"
  by (auto simp add: add_prechecked_signature_def)

lemma add_prechecked_signature_stored:
  "fst (add_prechecked_signature btx q position approval sig)
    \<Longrightarrow> q < length (signature_slots btx) \<and> position < length (signature_slots btx ! q)
         \<and> fst (signature_slots btx ! q ! position) = sig_none"
  by (cases "q < length (signature_slots btx) \<and> position < length (signature_slots btx ! q)
         \<and> fst (signature_slots btx ! q ! position) = sig_none")
     (simp_all add: add_prechecked_signature_def)

text \<open>Storing a signature keeps a verdict that has been reached.\<close>

lemma add_prechecked_signature_approved:
  assumes "approved m btx"
  shows "approved m (snd (add_prechecked_signature btx q position approval sig))"
proof (cases "fst (add_prechecked_signature btx q position approval sig)")
  case False
  then have "snd (add_prechecked_signature btx q position approval sig) = btx"
    by (rule add_prechecked_signature_refused)
  with assms show ?thesis by simp
next
  case True
  let ?rows = "signature_slots btx"
  let ?row' = "(?rows ! q)[position := (if approval then sig_approved else sig_rejected, sig)]"
  from add_prechecked_signature_stored [OF True]
  have q: "q < length ?rows" and pos: "position < length (?rows ! q)"
    and free: "fst (?rows ! q ! position) = sig_none"
    by simp_all
  then have new: "signature_slots (snd (add_prechecked_signature btx q position approval sig))
      = ?rows[q := ?row']"
    by (simp add: add_prechecked_signature_def)
  have "m \<le> count_status sig_approved (?rows ! q)"
    using assms q by (simp add: approved_def list_all_length)
  also have "\<dots> \<le> count_status sig_approved ?row'"
    using pos free by (intro count_status_update) simp_all
  finally have row': "m \<le> count_status sig_approved ?row'" .
  have "\<forall>row \<in> set (?rows[q := ?row']). m \<le> count_status sig_approved row"
  proof
    fix row assume "row \<in> set (?rows[q := ?row'])"
    then have "row = ?row' \<or> row \<in> set ?rows"
      using set_update_subset_insert [of ?rows q ?row'] by auto
    then show "m \<le> count_status sig_approved row"
      using row' assms by (auto simp add: approved_def list_all_iff)
  qed
  then show ?thesis by (simp add: approved_def new list_all_iff)
qed

lemma add_prechecked_signature_rejected:
  assumes "rejected_tx m btx"
  shows "rejected_tx m (snd (add_prechecked_signature btx q position approval sig))"
proof (cases "fst (add_prechecked_signature btx q position approval sig)")
  case False
  then have "snd (add_prechecked_signature btx q position approval sig) = btx"
    by (rule add_prechecked_signature_refused)
  with assms show ?thesis by simp
next
  case True
  let ?rows = "signature_slots btx"
  let ?row' = "(?rows ! q)[position := (if approval then sig_approved else sig_rejected, sig)]"
  from add_prechecked_signature_stored [OF True]
  have q: "q < length ?rows" and pos: "position < length (?rows ! q)"
    and free: "fst (?rows ! q ! position) = sig_none"
    by simp_all
  then have new: "signature_slots (snd (add_prechecked_signature btx q position approval sig))
      = ?rows[q := ?row']"
    by (simp add: add_prechecked_signature_def)
  from assms obtain n where n: "n < length ?rows"
    and many: "int (count_status sig_rejected (?rows ! n)) > int (length (?rows ! n)) - int m"
    by (auto simp add: rejected_tx_def list_ex_length)
  have "int (count_status sig_rejected (?rows[q := ?row'] ! n))
          > int (length (?rows[q := ?row'] ! n)) - int m"
  proof (cases "n = q")
    case False
    with many show ?thesis by simp
  next
    case True
    have "count_status sig_rejected (?rows ! q) \<le> count_status sig_rejected ?row'"
      using pos free by (intro count_status_update) simp_all
    with many True q show ?thesis by simp
  qed
  with n show ?thesis by (auto simp add: rejected_tx_def new list_ex_length)
qed

lemma store_signatures_verdicts:
  "(approved m btx \<longrightarrow> approved m (fst (store_signatures btx sigs)))
   \<and> (rejected_tx m btx \<longrightarrow> rejected_tx m (fst (store_signatures btx sigs)))"
proof (induction sigs arbitrary: btx)
  case Nil
  show ?case by simp
next
  case (Cons s sigs)
  obtain approval qi position sig where s: "s = (approval, qi, position, sig)"
    by (cases s)
  let ?b1 = "snd (add_prechecked_signature btx (unat qi) (nat position) approval sig)"
  have fst_eq: "fst (store_signatures btx (s # sigs)) = fst (store_signatures ?b1 sigs)"
    by (simp add: s split: prod.splits)
  show ?case
    unfolding fst_eq
    using Cons.IH [of ?b1] add_prechecked_signature_approved [of m btx]
      add_prechecked_signature_rejected [of m btx]
    by blast
qed

lemma store_signatures_none_stored:
  "snd (store_signatures btx sigs) = [] \<Longrightarrow> fst (store_signatures btx sigs) = btx"
proof (induction sigs arbitrary: btx)
  case Nil
  show ?case by simp
next
  case (Cons s sigs)
  obtain approval qi position sig where s: "s = (approval, qi, position, sig)"
    by (cases s)
  obtain stored b1 where a: "add_prechecked_signature btx (unat qi) (nat position) approval sig = (stored, b1)"
    by (cases "add_prechecked_signature btx (unat qi) (nat position) approval sig")
  obtain b2 kept where r: "store_signatures b1 sigs = (b2, kept)"
    by (cases "store_signatures b1 sigs")
  from Cons.prems s a r have ns: "\<not> stored" and k: "kept = []"
    by (auto split: if_splits)
  from ns a add_prechecked_signature_refused [of btx "unat qi" "nat position" approval sig]
  have "b1 = btx" by simp
  moreover from Cons.IH [of b1] r k have "b2 = b1" by simp
  ultimately show ?case using s a r by simp
qed

text \<open>A call that is not interrupted, written out.\<close>

lemma process_blink_signatures_alone:
  "process_blink_signatures MIN_VOTES hash_of check_signature btx blink_quorums quorum_cs sigs
       reply_to_tag reply_to received_from =
     (case discard_known btx blink_quorums sigs of
        None \<Rightarrow> None
      | Some sigs1 \<Rightarrow>
          (let already_approved = approved MIN_VOTES btx;
               already_rejected = rejected_tx MIN_VOTES btx
           in if sigs1 = [] then Some (btx, [])
              else
                (let sigs2 = discard_invalid hash_of check_signature btx blink_quorums sigs1
                 in if sigs2 = [] then Some (btx, [])
                    else
                      (case store_signatures btx sigs2 of
                         (btx', sigs3) \<Rightarrow>
                           (let now_approved =
                                  (if sigs3 \<noteq> [] then approved MIN_VOTES btx' else already_approved);
                                now_rejected =
                                  (if sigs3 \<noteq> [] then rejected_tx MIN_VOTES btx' else already_rejected)
                            in if sigs3 = [] then Some (btx', [])
                               else
                                 Some (btx',
                                   Relay_to_peers ''blink_sign'' (blink_sign_data btx' quorum_cs sigs3)
                                     received_from
                                   # (if reply_to_tag \<noteq> 0 \<and> reply_to \<noteq> [] then
                                        (if now_approved \<and> \<not> already_approved then
                                           [Send reply_to ''bl_good'' (bl_verdict reply_to_tag)]
                                         else if now_rejected \<and> \<not> already_rejected then
                                           [Send reply_to ''bl_bad'' (bl_verdict reply_to_tag)]
                                         else [])
                                      else [])))))))"
proof (cases "discard_known btx blink_quorums sigs")
  case None
  then show ?thesis by (simp add: process_blink_signatures_def)
next
  case (Some sigs1)
  show ?thesis
  proof (cases "sigs1 = []")
    case True
    with Some show ?thesis by (simp add: process_blink_signatures_def)
  next
    case known: False
    show ?thesis
    proof (cases "discard_invalid hash_of check_signature btx blink_quorums sigs1 = []")
      case True
      with Some known show ?thesis by (simp add: process_blink_signatures_def)
    next
      case valid: False
      obtain b3 sigs3 where
        st: "store_signatures btx (discard_invalid hash_of check_signature btx blink_quorums sigs1)
               = (b3, sigs3)"
        by (cases "store_signatures btx
                     (discard_invalid hash_of check_signature btx blink_quorums sigs1)")
      show ?thesis
      proof (cases "sigs3 = []")
        case True
        with Some known valid st show ?thesis by (simp add: process_blink_signatures_def)
      next
        case False
        with Some known valid st show ?thesis
          by (simp add: process_blink_signatures_def Let_def)
      qed
    qed
  qed
qed

text \<open>The three loops of a call, and what it returns after them.\<close>

lemma process_blink_signatures_loops:
  assumes "discard_known btx quorums sigs = Some sigs1"
      and "discard_invalid hash_of check btx quorums sigs1 = sigs2"
      and "store_signatures btx sigs2 = (b3, sigs3)"
  shows "process_blink_signatures m hash_of check btx quorums cs sigs tag reply_to from =
      (if sigs1 = [] \<or> sigs2 = [] then Some (btx, [])
       else if sigs3 = [] then Some (b3, [])
       else Some (b3, Relay_to_peers ''blink_sign'' (blink_sign_data b3 cs sigs3) from
              # (if tag \<noteq> 0 \<and> reply_to \<noteq> [] then
                   (if approved m b3 \<and> \<not> approved m btx
                    then [Send reply_to ''bl_good'' (bl_verdict tag)]
                    else if rejected_tx m b3 \<and> \<not> rejected_tx m btx
                    then [Send reply_to ''bl_bad'' (bl_verdict tag)]
                    else [])
                 else [])))"
  by (simp add: process_blink_signatures_alone assms Let_def)

text \<open>One call: the transaction it leaves, and the verdicts it sends.\<close>

lemma process_blink_signatures_call:
  assumes "process_blink_signatures m hash_of check btx quorums cs sigs tag reply_to from
             = Some (btx', out)"
  shows "(approved m btx \<longrightarrow> approved m btx') \<and> (rejected_tx m btx \<longrightarrow> rejected_tx m btx')
     \<and> filter is_Send out =
         (if tag \<noteq> 0 \<and> reply_to \<noteq> [] then
            (if approved m btx' \<and> \<not> approved m btx then [Send reply_to ''bl_good'' (bl_verdict tag)]
             else if rejected_tx m btx' \<and> \<not> rejected_tx m btx then [Send reply_to ''bl_bad'' (bl_verdict tag)]
             else [])
          else [])"
proof -
  from assms obtain sigs1 where s1: "discard_known btx quorums sigs = Some sigs1"
    by (auto simp add: process_blink_signatures_alone split: option.splits)
  let ?sigs2 = "discard_invalid hash_of check btx quorums sigs1"
  obtain b3 sigs3 where st: "store_signatures btx ?sigs2 = (b3, sigs3)"
    by (cases "store_signatures btx ?sigs2")
  have mono: "(approved m btx \<longrightarrow> approved m b3) \<and> (rejected_tx m btx \<longrightarrow> rejected_tx m b3)"
    using store_signatures_verdicts [of m btx ?sigs2] st by simp
  let ?verdicts = "if tag \<noteq> 0 \<and> reply_to \<noteq> [] then
                     (if approved m b3 \<and> \<not> approved m btx then [Send reply_to ''bl_good'' (bl_verdict tag)]
                      else if rejected_tx m b3 \<and> \<not> rejected_tx m btx then [Send reply_to ''bl_bad'' (bl_verdict tag)]
                      else [])
                   else []"
  have eq: "process_blink_signatures m hash_of check btx quorums cs sigs tag reply_to from =
      (if sigs1 = [] \<or> ?sigs2 = [] then Some (btx, [])
       else if sigs3 = [] then Some (b3, [])
       else Some (b3, Relay_to_peers ''blink_sign'' (blink_sign_data b3 cs sigs3) from # ?verdicts))"
    by (rule process_blink_signatures_loops [OF s1 refl st])
  show ?thesis
  proof (cases "sigs1 = [] \<or> ?sigs2 = []")
    case True
    with assms eq have "btx' = btx \<and> out = []" by simp
    then show ?thesis by simp
  next
    case False
    show ?thesis
    proof (cases "sigs3 = []")
      case True
      with st store_signatures_none_stored [of btx ?sigs2] have "b3 = btx" by simp
      with assms eq False True have "btx' = btx \<and> out = []" by simp
      then show ?thesis by simp
    next
      case nonempty: False
      have "process_blink_signatures m hash_of check btx quorums cs sigs tag reply_to from =
          Some (b3, Relay_to_peers ''blink_sign'' (blink_sign_data b3 cs sigs3) from # ?verdicts)"
        using eq False nonempty by (simp only: if_False)
      with assms have "Some (btx', out) =
          Some (b3, Relay_to_peers ''blink_sign'' (blink_sign_data b3 cs sigs3) from # ?verdicts)"
        by (simp only:)
      then have b: "btx' = b3"
        and o: "out = Relay_to_peers ''blink_sign'' (blink_sign_data b3 cs sigs3) from # ?verdicts"
        by (simp_all only: option.inject prod.inject)
      show ?thesis unfolding b o using mono by simp
    qed
  qed
qed

text \<open>
  Calls one after the other, with a reply tag and a reply key: a verdict that has been
  reached stays, and the verdicts sent over the whole run are one \<open>bl_good\<close> when the
  transaction became approved during the run, one \<open>bl_bad\<close> when it became rejected, and
  nothing otherwise.
\<close>

lemma process_blink_signatures_run_verdicts:
  assumes "process_blink_signatures_run m hash_of check quorums cs tag reply_to btx calls
             = Some (btx', out)"
      and "tag \<noteq> 0" and "reply_to \<noteq> []"
  shows "(approved m btx \<longrightarrow> approved m btx') \<and> (rejected_tx m btx \<longrightarrow> rejected_tx m btx')
     \<and> filter is_Send out =
         (if approved m btx' \<and> \<not> approved m btx then [Send reply_to ''bl_good'' (bl_verdict tag)]
          else if rejected_tx m btx' \<and> \<not> rejected_tx m btx then [Send reply_to ''bl_bad'' (bl_verdict tag)]
          else [])"
  using assms(1)
proof (induction calls arbitrary: btx out)
  case Nil
  then show ?case by simp
next
  case (Cons call calls)
  obtain sigs "from" where call: "call = (sigs, from)" by (cases call)
  obtain b1 o1 where
    first: "process_blink_signatures m hash_of check btx quorums cs sigs tag reply_to from
              = Some (b1, o1)"
    using Cons.prems call
    by (cases "process_blink_signatures m hash_of check btx quorums cs sigs tag reply_to from")
       auto
  obtain o2 where
    rest: "process_blink_signatures_run m hash_of check quorums cs tag reply_to b1 calls
              = Some (btx', o2)"
    and out: "out = o1 @ o2"
    using Cons.prems call first
    by (cases "process_blink_signatures_run m hash_of check quorums cs tag reply_to b1 calls")
       auto
  note one = process_blink_signatures_call [OF first]
  note more = Cons.IH [OF rest]
  have x0: "\<not> (approved m btx \<and> rejected_tx m btx)"
    and x1: "\<not> (approved m b1 \<and> rejected_tx m b1)"
    and x2: "\<not> (approved m btx' \<and> rejected_tx m btx')"
    using approved_not_rejected by blast+
  have a: "approved m btx \<longrightarrow> approved m b1" and a': "approved m b1 \<longrightarrow> approved m btx'"
    and r: "rejected_tx m btx \<longrightarrow> rejected_tx m b1" and r': "rejected_tx m b1 \<longrightarrow> rejected_tx m btx'"
    using one more by blast+
  have f1: "filter is_Send o1 =
         (if approved m b1 \<and> \<not> approved m btx then [Send reply_to ''bl_good'' (bl_verdict tag)]
          else if rejected_tx m b1 \<and> \<not> rejected_tx m btx then [Send reply_to ''bl_bad'' (bl_verdict tag)]
          else [])"
    using one assms(2,3) by simp
  have f2: "filter is_Send o2 =
         (if approved m btx' \<and> \<not> approved m b1 then [Send reply_to ''bl_good'' (bl_verdict tag)]
          else if rejected_tx m btx' \<and> \<not> rejected_tx m b1 then [Send reply_to ''bl_bad'' (bl_verdict tag)]
          else [])"
    using more by blast
  have "filter is_Send out =
         (if approved m btx' \<and> \<not> approved m btx then [Send reply_to ''bl_good'' (bl_verdict tag)]
          else if rejected_tx m btx' \<and> \<not> rejected_tx m btx then [Send reply_to ''bl_bad'' (bl_verdict tag)]
          else [])"
  proof -
    define A0 where "A0 = approved m btx"
    define A1 where "A1 = approved m b1"
    define A2 where "A2 = approved m btx'"
    define R0 where "R0 = rejected_tx m btx"
    define R1 where "R1 = rejected_tx m b1"
    define R2 where "R2 = rejected_tx m btx'"
    define G where "G = Send reply_to ''bl_good'' (bl_verdict tag)"
    define B where "B = Send reply_to ''bl_bad'' (bl_verdict tag)"
    have facts: "\<not> (A0 \<and> R0)" "\<not> (A1 \<and> R1)" "\<not> (A2 \<and> R2)"
      "A0 \<longrightarrow> A1" "A1 \<longrightarrow> A2" "R0 \<longrightarrow> R1" "R1 \<longrightarrow> R2"
      unfolding A0_def A1_def A2_def R0_def R1_def R2_def
      using x0 x1 x2 a a' r r' by blast+
    have "(if A1 \<and> \<not> A0 then [G] else if R1 \<and> \<not> R0 then [B] else [])
          @ (if A2 \<and> \<not> A1 then [G] else if R2 \<and> \<not> R1 then [B] else [])
        = (if A2 \<and> \<not> A0 then [G] else if R2 \<and> \<not> R0 then [B] else [])"
      using facts by (cases A0; cases A1; cases A2; cases R0; cases R1; cases R2) simp_all
    then show ?thesis
      unfolding out filter_append f1 f2
      by (simp only: A0_def A1_def A2_def R0_def R1_def R2_def G_def B_def)
  qed
  with a a' r r' show ?case by blast
qed

text \<open>A call returns when every subquorum index is inside \<open>blink_quorums\<close>.\<close>

lemma discard_known_returns:
  "\<forall>s \<in> set sigs. unat (fst (snd s)) < length quorums
    \<Longrightarrow> \<exists>kept. discard_known btx quorums sigs = Some kept"
  by (induction sigs) auto

lemma process_blink_signatures_returns:
  assumes "\<forall>s \<in> set sigs. unat (fst (snd s)) < length quorums"
  shows "\<exists>r. process_blink_signatures m hash_of check btx quorums cs sigs tag reply_to from = Some r"
proof -
  from discard_known_returns [OF assms] obtain kept
    where "discard_known btx quorums sigs = Some kept" by blast
  then show ?thesis
    by (simp add: process_blink_signatures_alone Let_def split: prod.splits)
qed

lemma process_blink_signatures_run_returns:
  assumes "\<forall>call \<in> set calls. \<forall>s \<in> set (fst call). unat (fst (snd s)) < length quorums"
  shows "\<exists>r. process_blink_signatures_run m hash_of check quorums cs tag reply_to btx calls = Some r"
  using assms
proof (induction calls arbitrary: btx)
  case Nil
  show ?case by simp
next
  case (Cons call calls)
  obtain sigs "from" where call: "call = (sigs, from)" by (cases call)
  from Cons.prems call
  have "\<forall>s \<in> set sigs. unat (fst (snd s)) < length quorums" by simp
  from process_blink_signatures_returns [OF this]
  obtain b1 o1 where
    first: "process_blink_signatures m hash_of check btx quorums cs sigs tag reply_to from
              = Some (b1, o1)"
    by fastforce
  from Cons.IH [of b1] Cons.prems obtain b2 o2 where
    "process_blink_signatures_run m hash_of check quorums cs tag reply_to b1 calls = Some (b2, o2)"
    by fastforce
  with first call show ?case by simp
qed

text \<open>
  The example: the seventh approval of the first subquorum, signed by \<open>g\<close> at position 6,
  is stored and relayed, and makes the transaction approved.
\<close>

lemma sample_call:
  "process_blink_signatures 7 sample_hash_of sample_check sample_btx
     [\<lparr>validators = ten_validators\<rparr>, \<lparr>validators = ten_validators\<rparr>] 30
     [(True, 0, 6, ''sigg'')] tag reply_to from
   = Some (sample_btx\<lparr>signature_slots := (signature_slots sample_btx)
               [0 := (signature_slots sample_btx ! 0)[6 := (sig_approved, ''sigg'')]]\<rparr>,
           Relay_to_peers ''blink_sign''
             (blink_sign_data sample_btx 30 [(True, 0, 6, ''sigg'')]) from
           # (if tag \<noteq> 0 \<and> reply_to \<noteq> [] then [Send reply_to ''bl_good'' (bl_verdict tag)]
              else []))
   \<and> \<not> approved 7 sample_btx
   \<and> approved 7 (sample_btx\<lparr>signature_slots := (signature_slots sample_btx)
               [0 := (signature_slots sample_btx ! 0)[6 := (sig_approved, ''sigg'')]]\<rparr>)"
proof -
  let ?qs = "[\<lparr>validators = ten_validators\<rparr>, \<lparr>validators = ten_validators\<rparr>]"
  let ?sigs = "[(True, 0 :: u8, 6 :: int, ''sigg'')]"
  let ?b1 = "sample_btx\<lparr>signature_slots := (signature_slots sample_btx)
               [0 := (signature_slots sample_btx ! 0)[6 := (sig_approved, ''sigg'')]]\<rparr>"
  have known: "discard_known sample_btx ?qs ?sigs = Some ?sigs"
    by (simp add: get_signature_status_def sample_btx_def empty_slot_def ten_validators_def)
  have valid: "discard_invalid sample_hash_of sample_check sample_btx ?qs ?sigs = ?sigs"
    by (simp add: discard_invalid_def sample_check_def ten_validators_def)
  have stored: "store_signatures sample_btx ?sigs = (?b1, ?sigs)"
    by (simp add: add_prechecked_signature_def sample_btx_def empty_slot_def)
  have before: "\<not> approved 7 sample_btx"
    by (simp add: approved_def count_status_def sample_btx_def approved_slot_def empty_slot_def)
  have after: "approved 7 ?b1"
    by (simp add: approved_def count_status_def sample_btx_def approved_slot_def empty_slot_def)
  have data: "blink_sign_data ?b1 30 ?sigs = blink_sign_data sample_btx 30 ?sigs"
    by (simp add: blink_sign_data_def)
  have "process_blink_signatures 7 sample_hash_of sample_check sample_btx ?qs 30 ?sigs
          tag reply_to from
      = Some (?b1, Relay_to_peers ''blink_sign'' (blink_sign_data sample_btx 30 ?sigs) from
           # (if tag \<noteq> 0 \<and> reply_to \<noteq> [] then [Send reply_to ''bl_good'' (bl_verdict tag)]
              else []))"
    unfolding process_blink_signatures_loops [OF known valid stored]
    by (simp add: before after data)
  with before after show ?thesis by blast
qed

text \<open>
  Calls one after the other, each finished before the next begins, with a reply tag above
  zero and a non-empty reply key: a call sends \<open>bl_good\<close> with the tag to the reply key
  exactly when \<open>approved()\<close> was false before it and is true after it, and \<open>bl_bad\<close> exactly
  when \<open>rejected()\<close> was false before and is true after; over such a run the verdicts sent
  are one \<open>bl_good\<close> if the transaction became approved in the run, one \<open>bl_bad\<close> if it became
  rejected, and none otherwise.
\<close>

lemma verdict_sent_once:
  assumes "process_blink_signatures_run m hash_of check quorums cs tag reply_to btx calls
             = Some (btx', out)"
      and "tag \<noteq> 0" and "reply_to \<noteq> []"
  shows "filter is_Send out =
           (if approved m btx' \<and> \<not> approved m btx then [Send reply_to ''bl_good'' (bl_verdict tag)]
            else if rejected_tx m btx' \<and> \<not> rejected_tx m btx then [Send reply_to ''bl_bad'' (bl_verdict tag)]
            else [])"
  using process_blink_signatures_run_verdicts [OF assms] by blast

text \<open>
  Two calls, each with one more approval for the first subquorum, which has six; the
  second subquorum has seven.  The first call makes the transaction approved and sends
  \<open>bl_good\<close>; the second sends no verdict.
\<close>

lemma verdict_sent_once_example:
  "\<exists>btx' out.
     process_blink_signatures_run 7 sample_hash_of sample_check
       [\<lparr>validators = ten_validators\<rparr>, \<lparr>validators = ten_validators\<rparr>] 30 7 ''client''
       sample_btx [([(True, 0, 6, ''sigg'')], ''peer''), ([(True, 0, 7, ''sigh'')], ''peer'')]
     = Some (btx', out)
     \<and> filter is_Send out = [Send ''client'' ''bl_good'' (bl_verdict 7)]"
proof -
  let ?qs = "[\<lparr>validators = ten_validators\<rparr>, \<lparr>validators = ten_validators\<rparr>]"
  let ?b1 = "sample_btx\<lparr>signature_slots := (signature_slots sample_btx)
               [0 := (signature_slots sample_btx ! 0)[6 := (sig_approved, ''sigg'')]]\<rparr>"
  note first = sample_call [of 7 "''client''" "''peer''"]
  have "\<forall>s \<in> set [(True, 0 :: u8, 7 :: int, ''sigh'')]. unat (fst (snd s)) < length ?qs"
    by simp
  from process_blink_signatures_returns [OF this]
  obtain b2 o2 where second:
    "process_blink_signatures 7 sample_hash_of sample_check ?b1 ?qs 30
       [(True, 0, 7, ''sigh'')] 7 ''client'' ''peer'' = Some (b2, o2)"
    by fastforce
  have kept: "approved 7 b2"
    using process_blink_signatures_call [OF second] first by blast
  obtain out where run:
    "process_blink_signatures_run 7 sample_hash_of sample_check ?qs 30 7 ''client''
       sample_btx [([(True, 0, 6, ''sigg'')], ''peer''), ([(True, 0, 7, ''sigh'')], ''peer'')]
     = Some (b2, out)"
    using first second by simp
  have tag: "(7 :: u64) \<noteq> 0" and key: "''client'' \<noteq> []" by simp_all
  from verdict_sent_once [OF run tag key] first kept
  have "filter is_Send out = [Send ''client'' ''bl_good'' (bl_verdict 7)]" by simp
  with run show ?thesis by blast
qed

text \<open>
  C7.  The claim: a call of \<open>process_blink_signatures\<close> with \<open>reply_tag > 0\<close> sends \<open>bl_good\<close>
  exactly when \<open>approved()\<close> was false before the signatures were stored and is true
  after, likewise \<open>bl_bad\<close> and \<open>rejected()\<close>, so that each verdict is sent at most once for a
  blink transaction.  The code reads \<open>already_approved\<close> under the shared lock and stores
  under the unique lock, which it takes later.  Two handlers of the transaction with six
  approvals in the first subquorum and seven in the second, one with the approval of
  position 6 and one with that of position 7, reply tag 7: both read \<open>already_approved\<close> as
  false, then the first stores and sends \<open>bl_good\<close>, then the second stores, finds the
  transaction approved, and sends \<open>bl_good\<close> again.
\<close>

theorem run_handlers_sends_verdict_twice:
  "map_option (\<lambda>(handlers, btx). (map (\<lambda>h. filter is_Send (sent_by h)) handlers, approved 7 btx))
     (run_handlers 7 sample_hash_of sample_check
        [\<lparr>validators = ten_validators\<rparr>, \<lparr>validators = ten_validators\<rparr>] 30 7 ''client''
        [0, 1, 0, 0, 1, 1]
        [Called [(True, 0, 6, ''sigg'')] ''peer1'', Called [(True, 0, 7, ''sigh'')] ''peer2'']
        sample_btx)
   = Some ([[Send ''client'' ''bl_good'' (bl_verdict 7)],
            [Send ''client'' ''bl_good'' (bl_verdict 7)]], True)"
proof -
  let ?qs = "[\<lparr>validators = ten_validators\<rparr>, \<lparr>validators = ten_validators\<rparr>]"
  let ?g = "[(True, 0 :: u8, 6 :: int, ''sigg'')]"
  let ?h = "[(True, 0 :: u8, 7 :: int, ''sigh'')]"
  let ?b1 = "sample_btx\<lparr>signature_slots := (signature_slots sample_btx)
               [0 := (signature_slots sample_btx ! 0)[6 := (sig_approved, ''sigg'')]]\<rparr>"
  let ?b2 = "?b1\<lparr>signature_slots := (signature_slots ?b1)
               [0 := (signature_slots ?b1 ! 0)[7 := (sig_approved, ''sigh'')]]\<rparr>"
  let ?step = "process_blink_signatures_step 7 sample_hash_of sample_check ?qs 30 7 ''client''"
  let ?good = "Send ''client'' ''bl_good'' (bl_verdict 7)"
  have before: "\<not> approved 7 sample_btx" "\<not> rejected_tx 7 sample_btx"
    by (simp_all add: approved_def rejected_tx_def count_status_def sample_btx_def
          approved_slot_def empty_slot_def)
  have after1: "approved 7 ?b1"
    by (simp add: approved_def count_status_def sample_btx_def approved_slot_def empty_slot_def)
  have after2: "approved 7 ?b2"
    by (simp add: approved_def count_status_def sample_btx_def approved_slot_def empty_slot_def)
  have known_g: "discard_known sample_btx ?qs ?g = Some ?g"
    by (simp add: get_signature_status_def sample_btx_def empty_slot_def ten_validators_def)
  have known_h: "discard_known sample_btx ?qs ?h = Some ?h"
    by (simp add: get_signature_status_def sample_btx_def empty_slot_def ten_validators_def)
  have valid_g: "discard_invalid sample_hash_of sample_check sample_btx ?qs ?g = ?g"
    by (simp add: discard_invalid_def sample_check_def ten_validators_def)
  have valid_h: "discard_invalid sample_hash_of sample_check ?b1 ?qs ?h = ?h"
    by (simp add: discard_invalid_def sample_check_def ten_validators_def)
  have stored_g: "store_signatures sample_btx ?g = (?b1, ?g)"
    by (simp add: add_prechecked_signature_def sample_btx_def empty_slot_def)
  have stored_h: "store_signatures ?b1 ?h = (?b2, ?h)"
    by (simp add: add_prechecked_signature_def sample_btx_def empty_slot_def)
  have s1: "?step (Called ?g ''peer1'') sample_btx
              = Some (Checked ?g False False ''peer1'', sample_btx)"
    using before by (simp add: known_g del: discard_known.simps)
  have s2: "?step (Called ?h ''peer2'') sample_btx
              = Some (Checked ?h False False ''peer2'', sample_btx)"
    using before by (simp add: known_h del: discard_known.simps)
  have s3: "?step (Checked ?g False False ''peer1'') sample_btx
              = Some (Verified ?g False False ''peer1'', sample_btx)"
    by (simp add: valid_g)
  have s4: "?step (Verified ?g False False ''peer1'') sample_btx
              = Some (Finished [Relay_to_peers ''blink_sign'' (blink_sign_data ?b1 30 ?g) ''peer1'',
                                ?good], ?b1)"
    using after1 by (simp add: stored_g del: store_signatures.simps)
  have s5: "?step (Checked ?h False False ''peer2'') ?b1
              = Some (Verified ?h False False ''peer2'', ?b1)"
    by (simp add: valid_h)
  have s6: "?step (Verified ?h False False ''peer2'') ?b1
              = Some (Finished [Relay_to_peers ''blink_sign'' (blink_sign_data ?b2 30 ?h) ''peer2'',
                                ?good], ?b2)"
    using after2 by (simp add: stored_h del: store_signatures.simps)
  have "run_handlers 7 sample_hash_of sample_check ?qs 30 7 ''client'' [0, 1, 0, 0, 1, 1]
          [Called ?g ''peer1'', Called ?h ''peer2''] sample_btx
      = Some ([Finished [Relay_to_peers ''blink_sign'' (blink_sign_data ?b1 30 ?g) ''peer1'', ?good],
               Finished [Relay_to_peers ''blink_sign'' (blink_sign_data ?b2 30 ?h) ''peer2'', ?good]],
              ?b2)"
    by (simp add: s1 s2 s3 s4 s5 s6 del: process_blink_signatures_step.simps)
  then show ?thesis using after2 by simp
qed

end
